theory Spec2Isabelle
  imports Main "HOL-Library.Word"
begin

section \<open>Strings: the naming converter of \<^verbatim>\<open>ShipStationBase\<close>\<close>

text \<open>
  Field names are ASCII identifiers. A \<^typ>\<open>char\<close> is one byte, and the case
  functions below are those of Python's \<^verbatim>\<open>str\<close> on ASCII text: bytes outside
  \<^verbatim>\<open>A-Z\<close> and \<^verbatim>\<open>a-z\<close> are uncased.
\<close>

definition isupper_c :: "char \<Rightarrow> bool" where
  "isupper_c c = (65 \<le> (of_char c :: nat) \<and> (of_char c :: nat) \<le> 90)"

definition islower_c :: "char \<Rightarrow> bool" where
  "islower_c c = (97 \<le> (of_char c :: nat) \<and> (of_char c :: nat) \<le> 122)"

definition isdigit_c :: "char \<Rightarrow> bool" where
  "isdigit_c c = (48 \<le> (of_char c :: nat) \<and> (of_char c :: nat) \<le> 57)"

definition lower_c :: "char \<Rightarrow> char" where
  "lower_c c = (if isupper_c c then char_of ((of_char c :: nat) + 32) else c)"

definition upper_c :: "char \<Rightarrow> char" where
  "upper_c c = (if islower_c c then char_of ((of_char c :: nat) - 32) else c)"

text \<open>\<^verbatim>\<open>str.lower()\<close>.\<close>

definition str_lower :: "string \<Rightarrow> string" where
  "str_lower s = map lower_c s"

text \<open>
  \<^verbatim>\<open>str.title()\<close>: a cased character is upper-cased when the character before it is
  uncased (or there is none) and lower-cased otherwise.
\<close>

fun title_from :: "bool \<Rightarrow> string \<Rightarrow> string" where
  "title_from prev [] = []"
| "title_from prev (c # cs) =
     (if islower_c c then (if prev then c else upper_c c) # title_from True cs
      else if isupper_c c then (if prev then lower_c c else c) # title_from True cs
      else c # title_from False cs)"

definition str_title :: "string \<Rightarrow> string" where
  "str_title s = title_from False s"

text \<open>
  \<^verbatim>\<open>str.split(sep)\<close> for a one-character separator. The result is never empty
  (\<^verbatim>\<open>"".split("_")\<close> is \<^verbatim>\<open>[""]\<close>), so the \<^verbatim>\<open>tokens.pop(0)\<close> of
  \<^verbatim>\<open>to_camel_case\<close> never raises; the \<open>[]\<close> branches below are unreachable.
\<close>

fun str_split :: "char \<Rightarrow> string \<Rightarrow> string list" where
  "str_split sep [] = [[]]"
| "str_split sep (c # cs) =
     (if c = sep then [] # str_split sep cs
      else (case str_split sep cs of [] \<Rightarrow> [[c]] | t # ts \<Rightarrow> (c # t) # ts))"

text \<open>\<^verbatim>\<open>sep.join(xs)\<close>.\<close>

fun str_join :: "string \<Rightarrow> string list \<Rightarrow> string" where
  "str_join sep [] = []"
| "str_join sep [x] = x"
| "str_join sep (x # y # ys) = x @ sep @ str_join sep (y # ys)"

text \<open>
  \<^verbatim>\<open>
  def to_camel_case(cls, name):
      tokens = name.lower().split("_")
      first_word = tokens.pop(0)
      return first_word + "".join(x.title() for x in tokens)
  \<close>
\<close>

definition to_camel_case :: "string \<Rightarrow> string" where
  "to_camel_case name =
     (case str_split (CHR ''_'') (str_lower name) of
        [] \<Rightarrow> []
      | first_word # tokens \<Rightarrow> first_word @ concat (map str_title tokens))"

text \<open>
  \<^verbatim>\<open>snake_case_regex = re.compile("([a-z0-9])([A-Z])")\<close> and
  \<^verbatim>\<open>snake_case_regex.sub(r"\1_\2", name)\<close>: matches are found left to right and do
  not overlap, so after a match the scan resumes behind the upper-case character.
\<close>

fun snake_case_regex_sub :: "string \<Rightarrow> string" where
  "snake_case_regex_sub (a # b # cs) =
     (if (islower_c a \<or> isdigit_c a) \<and> isupper_c b
      then a # CHR ''_'' # b # snake_case_regex_sub cs
      else a # snake_case_regex_sub (b # cs))"
| "snake_case_regex_sub cs = cs"

definition to_snake_case :: "string \<Rightarrow> string" where
  "to_snake_case name = str_lower (snake_case_regex_sub name)"

section \<open>Python values\<close>

text \<open>
  The exceptions the code can raise. Every validation failure of the repository is an
  \<^verbatim>\<open>AttributeError\<close>; the messages are not modelled. \<open>ValueError\<close> is the
  \<^verbatim>\<open>JSONDecodeError\<close> of a body or string that is not JSON, \<open>RequestException\<close> an
  exception of the HTTP library.
\<close>

datatype error = AttributeError | TypeError | NameError | KeyError | ValueError | RequestException

text \<open>A finite \<^verbatim>\<open>decimal.Decimal\<close>: sign, coefficient, exponent.\<close>

datatype decimal = Decimal bool nat int

text \<open>The classes of \<^verbatim>\<open>models.py\<close>.\<close>

datatype cls =
    ShipStationBase
  | ShipStationHTTP
  | ShipStationCustomsItem
  | ShipStationInternationalOptions
  | ShipStationWeight
  | ShipStationContainer
  | ShipStationItem
  | ShipStationAddress
  | ShipStationOrder
  | ShipStationAdvancedOptions
  | ShipStationInsuranceOptions
  | ShipStationStatusMapping
  | ShipStationStore
  | ShipStationWarehouse
  | ShipStationWebhook
  | ShipStationUser
  | ShipStationMarketplace
  | ShipStationCustomer
  | ShipStationMarketplaceUsername
  | ShipStationCarrier
  | ShipStationCarrierPackage
  | ShipStationCarrierService

text \<open>
  A value is a tree: objects are held by value, which is enough wherever the code does
  not rely on two names for one mutable object. A \<^verbatim>\<open>float\<close> is its IEEE-754 binary64
  bit pattern. A dictionary is its list of items in insertion order, with string keys.
  An instance of a model class carries the values of its slots and its \<^verbatim>\<open>__dict__\<close>
  (\<^verbatim>\<open>ShipStationBase\<close> declares no \<^verbatim>\<open>__slots__\<close>, so every instance has both).
  \<open>VResponse status body\<close> is a \<^verbatim>\<open>requests.Response\<close> with its decoded body
  (\<open>None\<close> when the body is not JSON); \<open>VCoroutine method endpoint payload\<close> is the
  coroutine a call of an \<^verbatim>\<open>async def\<close> request method of \<^verbatim>\<open>ShipStationAsync\<close>
  returns, not yet awaited.
\<close>

datatype pyval =
    VNone
  | VBool bool
  | VInt int
  | VFloat "64 word"
  | VDecimal decimal
  | VStr string
  | VList "pyval list"
  | VDict "(string \<times> pyval) list"
  | VObj cls "(string \<times> pyval) list" "(string \<times> pyval) list"
  | VResponse nat "pyval option"
  | VCoroutine string string pyval

text \<open>The types the code names in \<^verbatim>\<open>isinstance\<close> checks; no value of the model is a
  \<^verbatim>\<open>datetime.datetime\<close>.\<close>

datatype pytype = TDict | TList | TBool | TInt | TDecimal | TDatetime | TEntity cls

text \<open>
  What the code uses of the standard library without the repository defining it:
  \<^verbatim>\<open>json.loads\<close>, the text \<^verbatim>\<open>json.dumps\<close> gives for a serialisable value,
  \<^verbatim>\<open>str\<close> of values other than \<^verbatim>\<open>None\<close>, booleans, integers and strings, and
  arithmetic that involves a \<^verbatim>\<open>float\<close> or a \<^verbatim>\<open>Decimal\<close>.
\<close>

record pylib =
  json_loads :: "string \<Rightarrow> error + pyval"
  dumps_text :: "pyval \<Rightarrow> string"
  str_other :: "pyval \<Rightarrow> string"
  num_add :: "pyval \<Rightarrow> pyval \<Rightarrow> error + pyval"
  num_mul :: "pyval \<Rightarrow> pyval \<Rightarrow> error + pyval"
  num_round :: "pyval \<Rightarrow> error + pyval"

text \<open>
  \<^verbatim>\<open>shipstation/constants.py\<close> is not among the sources; the enumerations it defines
  are parameters. Each is taken to be a tuple or list of strings, so that a membership
  test compares its elements and raises nothing.
\<close>

record constants =
  ORDER_LIST_PARAMETERS :: "string list"
  ORDER_STATUS_VALUES :: "string list"
  WEIGHT_UNIT_OPTIONS :: "string list"
  CONTENTS_VALUES :: "string list"
  NON_DELIVERY_OPTIONS :: "string list"
  CUSTOMER_LIST_PARAMETERS :: "string list"
  FULFILLMENT_LIST_PARAMETERS :: "string list"
  SHIPMENT_LIST_PARAMETERS :: "string list"
  CREATE_SHIPMENT_LABEL_OPTIONS :: "string list"
  GET_RATE_OPTIONS :: "string list"
  REQUIRED_RATE_OPTIONS :: "string list"
  UPDATE_STORE_OPTIONS :: "string list"
  UPDATE_WAREHOUSE_OPTIONS :: "string list"
  CREATE_WAREHOUSE_OPTIONS :: "string list"
  SUBSCRIBE_TO_WEBHOOK_OPTIONS :: "string list"
  SUBSCRIBE_TO_WEBHOOK_EVENT_OPTIONS :: "string list"

text \<open>Sequencing of steps that may raise.\<close>

abbreviation ebind :: "error + 'a \<Rightarrow> ('a \<Rightarrow> error + 'b) \<Rightarrow> error + 'b" where
  "ebind m f \<equiv> case_sum Inl f m"

text \<open>A comprehension \<^verbatim>\<open>[f(x) for x in xs]\<close>: the first exception ends it.\<close>

fun emap :: "('a \<Rightarrow> error + 'b) \<Rightarrow> 'a list \<Rightarrow> error + 'b list" where
  "emap f [] = Inr []"
| "emap f (x # xs) =
     (case f x of
        Inl e \<Rightarrow> Inl e
      | Inr y \<Rightarrow> (case emap f xs of Inl e \<Rightarrow> Inl e | Inr ys \<Rightarrow> Inr (y # ys)))"

subsection \<open>Dictionaries\<close>

text \<open>\<^verbatim>\<open>d[k] = v\<close>: an existing key keeps its place, a new key goes last.\<close>

fun dict_set :: "(string \<times> 'v) list \<Rightarrow> string \<Rightarrow> 'v \<Rightarrow> (string \<times> 'v) list" where
  "dict_set [] k v = [(k, v)]"
| "dict_set ((k', v') # d) k v =
     (if k' = k then (k, v) # d else (k', v') # dict_set d k v)"

text \<open>\<^verbatim>\<open>{f(key): value for key, value in d.items()}\<close>.\<close>

definition dict_comp :: "(string \<Rightarrow> string) \<Rightarrow> (string \<times> 'v) list \<Rightarrow> (string \<times> 'v) list" where
  "dict_comp f d = foldl (\<lambda>acc (k, v). dict_set acc (f k) v) [] d"

subsection \<open>Truth, length, iteration, membership\<close>

text \<open>
  \<^verbatim>\<open>bool(v)\<close>. The model classes define neither \<^verbatim>\<open>__bool__\<close> nor
  \<^verbatim>\<open>__len__\<close>, so their instances are true; a \<^verbatim>\<open>requests.Response\<close> is true when
  its status is not an error status; a float is false when it is \<open>0.0\<close> or \<open>-0.0\<close>.
\<close>

fun truthy :: "pyval \<Rightarrow> bool" where
  "truthy VNone = False"
| "truthy (VBool b) = b"
| "truthy (VInt i) = (i \<noteq> 0)"
| "truthy (VFloat w) = (push_bit 1 w \<noteq> 0)"
| "truthy (VDecimal (Decimal s c e)) = (c \<noteq> 0)"
| "truthy (VStr s) = (s \<noteq> [])"
| "truthy (VList xs) = (xs \<noteq> [])"
| "truthy (VDict d) = (d \<noteq> [])"
| "truthy (VObj c sl di) = True"
| "truthy (VResponse st body) = (\<not> (400 \<le> st \<and> st < 600))"
| "truthy (VCoroutine m e p) = True"

fun py_len :: "pyval \<Rightarrow> error + nat" where
  "py_len (VStr s) = Inr (length s)"
| "py_len (VList xs) = Inr (length xs)"
| "py_len (VDict d) = Inr (length d)"
| "py_len v = Inl TypeError"

text \<open>
  \<^verbatim>\<open>for x in v\<close>: a string yields its characters, a dictionary its keys. (A
  response can be iterated too, over chunks of its raw body, which the model does not
  hold: the statements below iterate lists.)
\<close>

fun py_iter :: "pyval \<Rightarrow> error + pyval list" where
  "py_iter (VList xs) = Inr xs"
| "py_iter (VStr s) = Inr (map (\<lambda>c. VStr [c]) s)"
| "py_iter (VDict d) = Inr (map (\<lambda>(k, v). VStr k) d)"
| "py_iter v = Inl TypeError"

text \<open>\<^verbatim>\<open>value in other\<close> for one of the enumerations of strings.\<close>

fun py_in :: "pyval \<Rightarrow> string list \<Rightarrow> bool" where
  "py_in (VStr s) other = (s \<in> set other)"
| "py_in v other = False"

subsection \<open>Classes and attributes\<close>

text \<open>The \<^verbatim>\<open>__slots__\<close> a class declares or inherits.\<close>

fun slots_of :: "cls \<Rightarrow> string list option" where
  "slots_of ShipStationWeight = Some [''units'', ''value'', ''WeightUnits'']"
| "slots_of ShipStationAddress = Some
     [''name'', ''company'', ''street1'', ''street2'', ''street3'', ''city'', ''state'',
      ''postal_code'', ''country'', ''phone'', ''residential'']"
| "slots_of ShipStationOrder = Some
     [''advanced_options'', ''amount_paid'', ''batch_number'', ''bill_to'', ''carrier_code'',
      ''confirmation'', ''create_date'', ''customer_email'', ''customer_notes'',
      ''customer_username'', ''dimensions'', ''form_data'', ''gift'', ''insurance_cost'',
      ''insurance_options'', ''internal_notes'', ''international_options'', ''is_return_label'',
      ''items'', ''label_data'', ''marketplace_notified'', ''notify_error_message'',
      ''order_date'', ''order_id'', ''order_key'', ''order_number'', ''order_status'',
      ''package_code'', ''payment_date'', ''payment_method'', ''service_code'', ''ship_date'',
      ''ship_to'', ''shipment_cost'', ''shipment_id'', ''shipment_items'', ''shipping_amount'',
      ''tax_amount'', ''tracking_number'', ''user_id'', ''void_date'', ''voided'',
      ''warehouse_id'', ''weight'']"
| "slots_of ShipStationStore = Some
     [''store_id'', ''store_name'', ''marketplace_id'', ''marketplace_name'', ''account_name'',
      ''email'', ''integration_url'', ''active'', ''company_name'', ''phone'', ''public_email'',
      ''website'', ''refresh_date'', ''last_refresh_attempt'', ''create_date'', ''modify_date'',
      ''auto_refresh'', ''status_mappings'']"
| "slots_of ShipStationWarehouse = Some
     [''create_date'', ''ext_inventory_identity'', ''is_default'', ''origin_address'',
      ''return_address'', ''register_fedex_meter'', ''seller_integration_id'', ''warehouse_id'',
      ''warehouse_name'']"
| "slots_of ShipStationWebhook = Some
     [''active'', ''is_label_apihook'', ''web_hook_id'', ''seller_id'', ''hook_type'',
      ''message_format'', ''url'', ''name'', ''bulk_copy_batch_id'', ''bulk_copy_record_id'',
      ''webhook_logs'', ''seller'', ''store'', ''store_id'']"
| "slots_of ShipStationUser = Some [''name'', ''user_id'', ''user_name'']"
| "slots_of ShipStationMarketplace = Some
     [''can_confirm_shipments'', ''can_refresh'', ''marketplace_id'', ''name'',
      ''supports_custom_mappings'', ''supports_custom_statuses'']"
| "slots_of ShipStationCustomer = Some
     [''address_verified'', ''city'', ''company'', ''country_code'', ''create_date'',
      ''customer_id'', ''email'', ''marketplace_usernames'', ''modify_date'', ''name'',
      ''phone'', ''postal_code'', ''state'', ''street1'', ''street2'', ''tags'']"
| "slots_of ShipStationMarketplaceUsername = Some
     [''create_date'', ''customer_id'', ''customer_user_id'', ''marketplace'',
      ''marketplace_id'', ''modify_date'', ''username'']"
| "slots_of ShipStationCarrier = Some
     [''account_number'', ''balance'', ''code'', ''name'', ''nickname'', ''primary'',
      ''requires_funded_account'', ''shipping_provider_id'']"
| "slots_of ShipStationCarrierPackage = Some
     [''carrier_code'', ''code'', ''domestic'', ''international'', ''name'']"
| "slots_of ShipStationCarrierService = Some
     [''carrier_code'', ''code'', ''domestic'', ''international'', ''name'']"
| "slots_of c = None"

definition slot_names :: "cls \<Rightarrow> string list" where
  "slot_names c = (case slots_of c of None \<Rightarrow> [] | Some names \<Rightarrow> names)"

text \<open>\<^verbatim>\<open>issubclass\<close>: every class derives from \<^verbatim>\<open>ShipStationBase\<close>, and
  \<^verbatim>\<open>ShipStationCarrierService\<close> from \<^verbatim>\<open>ShipStationCarrierPackage\<close>.\<close>

definition issubclass :: "cls \<Rightarrow> cls \<Rightarrow> bool" where
  "issubclass c c' =
     (c = c' \<or> c' = ShipStationBase
      \<or> (c = ShipStationCarrierService \<and> c' = ShipStationCarrierPackage))"

fun isinstance :: "pyval \<Rightarrow> pytype \<Rightarrow> bool" where
  "isinstance (VDict d) TDict = True"
| "isinstance (VList xs) TList = True"
| "isinstance (VBool b) TBool = True"
| "isinstance (VBool b) TInt = True"
| "isinstance (VInt i) TInt = True"
| "isinstance (VDecimal d) TDecimal = True"
| "isinstance (VObj c sl di) (TEntity c') = issubclass c c'"
| "isinstance v t = False"

text \<open>
  \<^verbatim>\<open>self.name = v\<close> for a name written in the source: a slot of the class takes
  the value, any other name goes to \<^verbatim>\<open>__dict__\<close>. The source assigns attributes of
  instances of the model classes only.
\<close>

fun assign :: "pyval \<Rightarrow> string \<Rightarrow> pyval \<Rightarrow> pyval" where
  "assign (VObj c sl di) name v =
     (if name \<in> set (slot_names c) then VObj c (dict_set sl name v) di
      else VObj c sl (dict_set di name v))"
| "assign self name v = self"

text \<open>
  \<^verbatim>\<open>setattr(self, name, v)\<close> for a name computed at run time. Three names are not
  ordinary attributes of an instance: \<^verbatim>\<open>__dict__\<close> takes a dictionary only (and
  replaces the instance's), \<^verbatim>\<open>__weakref__\<close> is read-only, and \<^verbatim>\<open>__class__\<close> takes
  a class of the same layout only, which the model rejects throughout.
\<close>

definition special_names :: "string list" where
  "special_names = [''__class__'', ''__dict__'', ''__weakref__'']"

fun setattr :: "pyval \<Rightarrow> string \<Rightarrow> pyval \<Rightarrow> error + pyval" where
  "setattr (VObj c sl di) name v =
     (if name = ''__class__'' then Inl TypeError
      else if name = ''__weakref__'' then Inl AttributeError
      else if name = ''__dict__'' then
        (case v of VDict d \<Rightarrow> Inr (VObj c sl d) | _ \<Rightarrow> Inl TypeError)
      else Inr (assign (VObj c sl di) name v))"
| "setattr self name v = Inl AttributeError"

text \<open>
  \<^verbatim>\<open>self.name\<close>, \<^verbatim>\<open>getattr(self, name)\<close>: a slot that was never assigned and a
  name \<^verbatim>\<open>__dict__\<close> does not hold raise \<^verbatim>\<open>AttributeError\<close>. Only data attributes
  are modelled: the source reads the names of fields, which are neither methods of the
  model classes nor attributes of the built-in types.
\<close>

fun getattr :: "pyval \<Rightarrow> string \<Rightarrow> error + pyval" where
  "getattr (VObj c sl di) name =
     (case map_of (if name \<in> set (slot_names c) then sl else di) name of
        None \<Rightarrow> Inl AttributeError
      | Some v \<Rightarrow> Inr v)"
| "getattr v name = Inl AttributeError"

text \<open>
  A call \<^verbatim>\<open>self.m(...)\<close> looks \<open>m\<close> up on the instance before the class: an entry
  \<open>m\<close> of \<^verbatim>\<open>__dict__\<close> hides the method, and calling it raises \<^verbatim>\<open>TypeError\<close>, as
  no value of the model can be called. No constructor makes such an entry, but
  \<^verbatim>\<open>from_json\<close> turns every key of a wire object into an attribute, so an object read
  from the wire can hide any of its methods. \<open>invoke\<close> is a method call that returns a
  value, \<open>invoke_m\<close> one that is modelled with the state of \<open>self\<close>.
\<close>

definition shadowed :: "pyval \<Rightarrow> string \<Rightarrow> bool" where
  "shadowed self m = (case self of VObj c sl di \<Rightarrow> m \<in> set (map fst di) | _ \<Rightarrow> False)"

definition invoke :: "pyval \<Rightarrow> string \<Rightarrow> error + 'a \<Rightarrow> error + 'a" where
  "invoke self m body = (if shadowed self m then Inl TypeError else body)"

definition invoke_m ::
  "pyval \<Rightarrow> string \<Rightarrow> (error + 'a) \<times> pyval \<Rightarrow> (error + 'a) \<times> pyval" where
  "invoke_m self m body = (if shadowed self m then (Inl TypeError, self) else body)"

subsection \<open>Numbers and text\<close>

text \<open>\<^verbatim>\<open>str(i)\<close> for an integer.\<close>

fun str_nat :: "nat \<Rightarrow> string" where
  "str_nat n =
     (if n < 10 then [char_of (48 + n)]
      else str_nat (n div 10) @ [char_of (48 + n mod 10)])"

definition str_int :: "int \<Rightarrow> string" where
  "str_int i = (if i < 0 then CHR ''-'' # str_nat (nat (- i)) else str_nat (nat i))"

fun py_str :: "pylib \<Rightarrow> pyval \<Rightarrow> string" where
  "py_str lib VNone = ''None''"
| "py_str lib (VBool b) = (if b then ''True'' else ''False'')"
| "py_str lib (VInt i) = str_int i"
| "py_str lib (VStr s) = s"
| "py_str lib v = str_other lib v"

text \<open>An operand that is an \<^verbatim>\<open>int\<close> (a \<^verbatim>\<open>bool\<close> is one).\<close>

fun as_int :: "pyval \<Rightarrow> int option" where
  "as_int (VInt i) = Some i"
| "as_int (VBool b) = Some (if b then 1 else 0)"
| "as_int v = None"

fun is_number :: "pyval \<Rightarrow> bool" where
  "is_number (VInt i) = True"
| "is_number (VBool b) = True"
| "is_number (VFloat w) = True"
| "is_number (VDecimal d) = True"
| "is_number v = False"

text \<open>
  \<^verbatim>\<open>a + b\<close> and \<^verbatim>\<open>a * b\<close>. Integers are exact; strings and lists concatenate and
  repeat; two numbers of which one is a \<^verbatim>\<open>float\<close> or a \<^verbatim>\<open>Decimal\<close> go to the
  library; every other pair of operands is a \<^verbatim>\<open>TypeError\<close>.
\<close>

definition py_add :: "pylib \<Rightarrow> pyval \<Rightarrow> pyval \<Rightarrow> error + pyval" where
  "py_add lib a b =
     (case (as_int a, as_int b) of
        (Some i, Some j) \<Rightarrow> Inr (VInt (i + j))
      | _ \<Rightarrow>
        (if is_number a \<and> is_number b then num_add lib a b
         else (case (a, b) of
                 (VStr s, VStr t) \<Rightarrow> Inr (VStr (s @ t))
               | (VList xs, VList ys) \<Rightarrow> Inr (VList (xs @ ys))
               | _ \<Rightarrow> Inl TypeError)))"

definition py_mul :: "pylib \<Rightarrow> pyval \<Rightarrow> pyval \<Rightarrow> error + pyval" where
  "py_mul lib a b =
     (case (as_int a, as_int b) of
        (Some i, Some j) \<Rightarrow> Inr (VInt (i * j))
      | _ \<Rightarrow>
        (if is_number a \<and> is_number b then num_mul lib a b
         else (case (a, as_int b, as_int a, b) of
                 (VStr s, Some n, _, _) \<Rightarrow> Inr (VStr (concat (replicate (nat n) s)))
               | (VList xs, Some n, _, _) \<Rightarrow> Inr (VList (concat (replicate (nat n) xs)))
               | (_, _, Some n, VStr s) \<Rightarrow> Inr (VStr (concat (replicate (nat n) s)))
               | (_, _, Some n, VList xs) \<Rightarrow> Inr (VList (concat (replicate (nat n) xs)))
               | _ \<Rightarrow> Inl TypeError)))"

text \<open>\<^verbatim>\<open>sum(xs)\<close>: \<^verbatim>\<open>0 + x1 + x2 + ...\<close>, from the left.\<close>

fun sum_from :: "pylib \<Rightarrow> pyval \<Rightarrow> pyval list \<Rightarrow> error + pyval" where
  "sum_from lib acc [] = Inr acc"
| "sum_from lib acc (x # xs) =
     (case py_add lib acc x of Inl e \<Rightarrow> Inl e | Inr acc' \<Rightarrow> sum_from lib acc' xs)"

definition py_sum :: "pylib \<Rightarrow> pyval list \<Rightarrow> error + pyval" where
  "py_sum lib xs = sum_from lib (VInt 0) xs"

text \<open>\<^verbatim>\<open>round(v, 2)\<close>: an integer is returned as it is (as an \<^verbatim>\<open>int\<close>).\<close>

definition py_round2 :: "pylib \<Rightarrow> pyval \<Rightarrow> error + pyval" where
  "py_round2 lib v =
     (case as_int v of
        Some i \<Rightarrow> Inr (VInt i)
      | None \<Rightarrow> (if is_number v then num_round lib v else Inl TypeError))"


text \<open>
  \<^verbatim>\<open>json.dumps(v)\<close> raises \<^verbatim>\<open>TypeError\<close> on a value that holds a \<^verbatim>\<open>Decimal\<close>,
  an instance, a response or a coroutine anywhere; otherwise it returns text.
\<close>

fun json_serialisable :: "pyval \<Rightarrow> bool" where
  "json_serialisable VNone = True"
| "json_serialisable (VBool b) = True"
| "json_serialisable (VInt i) = True"
| "json_serialisable (VFloat w) = True"
| "json_serialisable (VStr s) = True"
| "json_serialisable (VList xs) = list_all json_serialisable xs"
| "json_serialisable (VDict d) = list_all (\<lambda>kv. json_serialisable (snd kv)) d"
| "json_serialisable v = False"

definition json_dumps :: "pylib \<Rightarrow> pyval \<Rightarrow> error + pyval" where
  "json_dumps lib v = (if json_serialisable v then Inr (VStr (dumps_text lib v)) else Inl TypeError)"

section \<open>Validation helpers of \<^verbatim>\<open>ShipStationBase\<close>\<close>

text \<open>
  \<^verbatim>\<open>
  def require_attribute(self, attribute):
      if not getattr(self, attribute):
          raise AttributeError("'{}' is a required attribute".format(attribute))
  \<close>
\<close>

definition require_attribute :: "pyval \<Rightarrow> string \<Rightarrow> error + unit" where
  "require_attribute self attribute =
     (case getattr self attribute of
        Inl e \<Rightarrow> Inl e
      | Inr v \<Rightarrow> (if \<not> truthy v then Inl AttributeError else Inr ()))"

text \<open>
  \<^verbatim>\<open>
  def require_type(self, item, required_type, message=""):
      if item is None:
          return
      if not isinstance(item, required_type):
          if message:
              raise AttributeError(message)
          raise AttributeError("must be of type {}".format(required_type))
  \<close>
\<close>

definition require_type :: "pyval \<Rightarrow> pytype \<Rightarrow> error + unit" where
  "require_type item required_type =
     (if item = VNone then Inr ()
      else if \<not> isinstance item required_type then Inl AttributeError
      else Inr ())"

text \<open>
  \<^verbatim>\<open>
  def require_membership(self, value, other):
      if value not in other:
          raise AttributeError("'{}' is not one of {}".format(value, str(other)))
  \<close>
\<close>

definition require_membership :: "pyval \<Rightarrow> string list \<Rightarrow> error + unit" where
  "require_membership v other = (if \<not> py_in v other then Inl AttributeError else Inr ())"

text \<open>
  \<^verbatim>\<open>
  def _validate_parameters(self, parameters, valid_parameters):
      self.require_type(parameters, dict)
      return {self.to_camel_case(key): value for key, value in parameters.items()}
  \<close>
  \<^verbatim>\<open>None\<close> passes \<^verbatim>\<open>require_type\<close> and has no \<^verbatim>\<open>items\<close>.
\<close>

definition validate_parameters :: "pyval \<Rightarrow> string list \<Rightarrow> error + pyval" where
  "validate_parameters parameters valid_parameters =
     ebind (require_type parameters TDict) (\<lambda>_.
       (case parameters of
          VDict d \<Rightarrow> Inr (VDict (dict_comp to_camel_case d))
        | _ \<Rightarrow> Inl AttributeError))"

section \<open>The model classes\<close>

text \<open>
  A constructor returns the new instance or the exception it raised. A method that
  changes \<open>self\<close> returns its result together with \<open>self\<close> as the call leaves it.
\<close>

fun assigns :: "pyval \<Rightarrow> (string \<times> pyval) list \<Rightarrow> pyval" where
  "assigns self [] = self"
| "assigns self ((name, v) # rest) = assigns (assign self name v) rest"

text \<open>\<^verbatim>\<open>self.attr.append(x)\<close>.\<close>

definition append_to :: "pyval \<Rightarrow> string \<Rightarrow> pyval \<Rightarrow> (error + unit) \<times> pyval" where
  "append_to self attr x =
     (case getattr self attr of
        Inl e \<Rightarrow> (Inl e, self)
      | Inr (VList xs) \<Rightarrow> (Inr (), assign self attr (VList (xs @ [x])))
      | Inr _ \<Rightarrow> (Inl AttributeError, self))"

subsection \<open>\<^verbatim>\<open>ShipStationCustomsItem\<close>\<close>

text \<open>
  \<^verbatim>\<open>
  def __init__(self, description=None, quantity=1, value=Decimal("0"),
               harmonized_tariff_code=None, country_of_origin=None):
      self.description = description
      self.quantity = quantity
      self.value = value
      self.harmonized_tariff_code = harmonized_tariff_code
      self.country_of_origin = country_of_origin

      self.require_attribute("description")
      self.require_attribute("harmonized_tariff_code")
      self.require_attribute("country_of_origin")
      self.require_attribute("description")
      self.require_type(value, Decimal)
      if len(self.country_of_origin) is not 2:
          raise AttributeError("country_of_origin must be two characters")
  \<close>
  (\<^verbatim>\<open>is not 2\<close> compares a small integer, which CPython keeps as one object, so it
  is \<^verbatim>\<open>!= 2\<close>.)
\<close>

definition ShipStationCustomsItem_init ::
  "pyval \<Rightarrow> pyval \<Rightarrow> pyval \<Rightarrow> pyval \<Rightarrow> pyval \<Rightarrow> error + pyval" where
  "ShipStationCustomsItem_init description quantity val harmonized_tariff_code country_of_origin =
     (let self = assigns (VObj ShipStationCustomsItem [] [])
        [(''description'', description), (''quantity'', quantity), (''value'', val),
         (''harmonized_tariff_code'', harmonized_tariff_code),
         (''country_of_origin'', country_of_origin)]
      in ebind (require_attribute self ''description'') (\<lambda>_.
         ebind (require_attribute self ''harmonized_tariff_code'') (\<lambda>_.
         ebind (require_attribute self ''country_of_origin'') (\<lambda>_.
         ebind (require_attribute self ''description'') (\<lambda>_.
         ebind (require_type val TDecimal) (\<lambda>_.
         ebind (getattr self ''country_of_origin'') (\<lambda>c.
         ebind (py_len c) (\<lambda>n.
           if n \<noteq> 2 then Inl AttributeError else Inr self))))))))"

subsection \<open>\<^verbatim>\<open>ShipStationInternationalOptions\<close>\<close>

definition ShipStationInternationalOptions_set_contents ::
  "constants \<Rightarrow> pyval \<Rightarrow> pyval \<Rightarrow> (error + unit) \<times> pyval" where
  "ShipStationInternationalOptions_set_contents consts self contents =
     invoke_m self ''set_contents''
       (if truthy contents then
          (if \<not> py_in contents (CONTENTS_VALUES consts) then (Inl AttributeError, self)
           else (Inr (), assign self ''contents'' contents))
        else (Inr (), assign self ''contents'' VNone))"

definition ShipStationInternationalOptions_set_non_delivery ::
  "constants \<Rightarrow> pyval \<Rightarrow> pyval \<Rightarrow> (error + unit) \<times> pyval" where
  "ShipStationInternationalOptions_set_non_delivery consts self non_delivery =
     invoke_m self ''set_non_delivery''
       (if truthy non_delivery then
          (if \<not> py_in non_delivery (NON_DELIVERY_OPTIONS consts) then (Inl AttributeError, self)
           else (Inr (), assign self ''non_delivery'' non_delivery))
        else (Inr (), assign self ''non_delivery'' VNone))"

text \<open>
  \<^verbatim>\<open>
  def __init__(self, contents=None, non_delivery="return_to_sender"):
      self.customs_items = []
      self.set_contents(contents)
      self.set_non_delivery(non_delivery)
  \<close>
\<close>

definition ShipStationInternationalOptions_init ::
  "constants \<Rightarrow> pyval \<Rightarrow> pyval \<Rightarrow> error + pyval" where
  "ShipStationInternationalOptions_init consts contents non_delivery =
     (let self = assign (VObj ShipStationInternationalOptions [] []) ''customs_items'' (VList [])
      in (case ShipStationInternationalOptions_set_contents consts self contents of
            (Inl e, _) \<Rightarrow> Inl e
          | (Inr _, self1) \<Rightarrow>
            (case ShipStationInternationalOptions_set_non_delivery consts self1 non_delivery of
               (Inl e, _) \<Rightarrow> Inl e
             | (Inr _, self2) \<Rightarrow> Inr self2)))"

definition ShipStationInternationalOptions_add_customs_item ::
  "pyval \<Rightarrow> pyval \<Rightarrow> (error + unit) \<times> pyval" where
  "ShipStationInternationalOptions_add_customs_item self customs_item =
     invoke_m self ''add_customs_item'' (invoke_m self ''require_type''
       (case require_type customs_item (TEntity ShipStationCustomsItem) of
          Inl e \<Rightarrow> (Inl e, self)
        | Inr _ \<Rightarrow> append_to self ''customs_items'' customs_item))"

subsection \<open>\<^verbatim>\<open>ShipStationWeight\<close>\<close>

definition ShipStationWeight_init :: "pyval \<Rightarrow> pyval \<Rightarrow> pyval" where
  "ShipStationWeight_init units val =
     assigns (VObj ShipStationWeight [] [])
       [(''units'', units), (''value'', val), (''WeightUnits'', VNone)]"

text \<open>
  \<^verbatim>\<open>
  def set_units(self):
      self.require_membership(self.units, WEIGHT_UNIT_OPTIONS)
      self.WeightUnits = self.units
  \<close>
\<close>

definition ShipStationWeight_set_units ::
  "constants \<Rightarrow> pyval \<Rightarrow> (error + unit) \<times> pyval" where
  "ShipStationWeight_set_units consts self =
     invoke_m self ''set_units''
       (case ebind (getattr self ''units'') (\<lambda>u.
               invoke self ''require_membership''
                 (ebind (require_membership u (WEIGHT_UNIT_OPTIONS consts)) (\<lambda>_. Inr u))) of
          Inl e \<Rightarrow> (Inl e, self)
        | Inr u \<Rightarrow> (Inr (), assign self ''WeightUnits'' u))"

subsection \<open>\<^verbatim>\<open>ShipStationContainer\<close>, \<^verbatim>\<open>ShipStationItem\<close>, \<^verbatim>\<open>ShipStationAddress\<close>\<close>

definition ShipStationContainer_init :: "pyval \<Rightarrow> pyval \<Rightarrow> pyval \<Rightarrow> pyval \<Rightarrow> pyval" where
  "ShipStationContainer_init units len width height =
     assigns (VObj ShipStationContainer [] [])
       [(''units'', units), (''length'', len), (''width'', width), (''height'', height),
        (''weight'', VNone)]"

text \<open>
  \<^verbatim>\<open>
  def set_weight(self, weight):
      self.require_type(weight, ShipStationWeight)
      self.weight = weight
  \<close>
  in \<^verbatim>\<open>ShipStationContainer\<close> and in \<^verbatim>\<open>ShipStationItem\<close>.
\<close>

definition set_weight :: "pyval \<Rightarrow> pyval \<Rightarrow> (error + unit) \<times> pyval" where
  "set_weight self weight =
     invoke_m self ''set_weight'' (invoke_m self ''require_type''
       (case require_type weight (TEntity ShipStationWeight) of
          Inl e \<Rightarrow> (Inl e, self)
        | Inr _ \<Rightarrow> (Inr (), assign self ''weight'' weight)))"

definition ShipStationContainer_set_units ::
  "constants \<Rightarrow> pyval \<Rightarrow> pyval \<Rightarrow> (error + unit) \<times> pyval" where
  "ShipStationContainer_set_units consts self units =
     invoke_m self ''set_units'' (invoke_m self ''require_membership''
       (case require_membership units (WEIGHT_UNIT_OPTIONS consts) of
          Inl e \<Rightarrow> (Inl e, self)
        | Inr _ \<Rightarrow> (Inr (), assign self ''units'' units)))"

definition ShipStationItem_init ::
  "pyval \<Rightarrow> pyval \<Rightarrow> pyval \<Rightarrow> pyval \<Rightarrow> pyval \<Rightarrow> pyval \<Rightarrow> pyval \<Rightarrow> pyval \<Rightarrow> pyval" where
  "ShipStationItem_init item_key sku name image_url quantity unit_price warehouse_location options =
     assigns (VObj ShipStationItem [] [])
       [(''key'', item_key), (''sku'', sku), (''name'', name), (''image_url'', image_url),
        (''weight'', VNone), (''quantity'', quantity), (''unit_price'', unit_price),
        (''warehouse_location'', warehouse_location), (''options'', options)]"

text \<open>The attributes a constructor assigns, in its order, for the classes whose
  constructor only stores its arguments.\<close>

fun init_names :: "cls \<Rightarrow> string list" where
  "init_names ShipStationAdvancedOptions =
     [''warehouse_id'', ''non_machineable'', ''saturday_delivery'', ''contains_alcohol'',
      ''store_id'', ''custom_field_1'', ''custom_field_2'', ''custom_field_3'', ''source'',
      ''merged_or_split'', ''merged_ids'', ''bill_to_party'', ''bill_to_account'',
      ''bill_to_postal_code'', ''bill_to_country_code'', ''bill_to_my_other_account'']"
| "init_names ShipStationInsuranceOptions = [''provider'', ''insure_shipment'', ''insured_value'']"
| "init_names ShipStationStatusMapping = [''order_status'', ''status_key'']"
| "init_names ShipStationWebhook =
     [''active'', ''is_label_apihook'', ''web_hook_id'', ''seller_id'', ''hook_type'',
      ''message_format'', ''url'', ''name'', ''bulk_copy_batch_id'', ''bulk_copy_record_id'',
      ''webhook_logs'', ''seller'', ''store_id'']"
| "init_names c = slot_names c"

text \<open>The constructor of such a class, called with keyword arguments \<open>kw\<close>; an
  argument that is not given is \<^verbatim>\<open>None\<close>.\<close>

definition init_fields :: "cls \<Rightarrow> (string \<times> pyval) list \<Rightarrow> pyval" where
  "init_fields c kw =
     assigns (VObj c [] [])
       (map (\<lambda>n. (n, case map_of kw n of None \<Rightarrow> VNone | Some v \<Rightarrow> v)) (init_names c))"

subsection \<open>\<^verbatim>\<open>ShipStationOrder\<close>\<close>

text \<open>\<open>now\<close> is \<^verbatim>\<open>datetime.datetime.now().isoformat()\<close>.\<close>

definition ShipStationOrder_init :: "string \<Rightarrow> pyval \<Rightarrow> pyval \<Rightarrow> pyval" where
  "ShipStationOrder_init now order_key order_number =
     assigns (VObj ShipStationOrder [] [])
       [(''order_number'', order_number), (''order_date'', VStr now), (''order_status'', VNone),
        (''bill_to'', VNone), (''ship_to'', VNone),
        (''order_key'', order_key), (''payment_date'', VNone), (''customer_username'', VNone),
        (''customer_email'', VNone), (''items'', VList []),
        (''amount_paid'', VDecimal (Decimal False 0 0)),
        (''tax_amount'', VDecimal (Decimal False 0 0)),
        (''shipping_amount'', VDecimal (Decimal False 0 0)),
        (''customer_notes'', VNone), (''internal_notes'', VNone), (''gift'', VNone),
        (''payment_method'', VNone), (''carrier_code'', VNone), (''service_code'', VNone),
        (''package_code'', VNone), (''confirmation'', VNone), (''ship_date'', VNone),
        (''dimensions'', VNone), (''insurance_options'', VNone),
        (''international_options'', VNone), (''advanced_options'', VNone),
        (''tracking_number'', VNone), (''voided'', VNone), (''void_date'', VNone),
        (''order_id'', VNone), (''marketplace_notified'', VNone), (''warehouse_id'', VNone),
        (''user_id'', VNone), (''label_data'', VNone), (''batch_number'', VNone),
        (''insurance_cost'', VNone), (''form_data'', VNone), (''notify_error_message'', VNone),
        (''is_return_label'', VNone), (''shipment_id'', VNone), (''shipment_cost'', VNone),
        (''weight'', VNone), (''create_date'', VNone), (''shipment_items'', VNone)]"

text \<open>
  \<^verbatim>\<open>
  def set_status(self, status=None):
      if not status:
          self.order_status = None
      elif status not in ORDER_STATUS_VALUES:
          raise AttributeError("Invalid status value")
      else:
          self.order_status = status
  \<close>
\<close>

definition set_status :: "constants \<Rightarrow> pyval \<Rightarrow> pyval \<Rightarrow> (error + unit) \<times> pyval" where
  "set_status consts self status =
     invoke_m self ''set_status''
       (if \<not> truthy status then (Inr (), assign self ''order_status'' VNone)
        else if \<not> py_in status (ORDER_STATUS_VALUES consts) then (Inl AttributeError, self)
        else (Inr (), assign self ''order_status'' status))"

definition set_shipping_address :: "pyval \<Rightarrow> pyval \<Rightarrow> (error + unit) \<times> pyval" where
  "set_shipping_address self shipping_address =
     invoke_m self ''set_shipping_address'' (invoke_m self ''require_type''
       (case require_type shipping_address (TEntity ShipStationAddress) of
          Inl e \<Rightarrow> (Inl e, self)
        | Inr _ \<Rightarrow> (Inr (), assign self ''ship_to'' shipping_address)))"

definition set_billing_address :: "pyval \<Rightarrow> pyval \<Rightarrow> (error + unit) \<times> pyval" where
  "set_billing_address self billing_address =
     invoke_m self ''set_billing_address'' (invoke_m self ''require_type''
       (case require_type billing_address (TEntity ShipStationAddress) of
          Inl e \<Rightarrow> (Inl e, self)
        | Inr _ \<Rightarrow> (Inr (), assign self ''bill_to'' billing_address)))"


definition set_international_options :: "pyval \<Rightarrow> pyval \<Rightarrow> (error + unit) \<times> pyval" where
  "set_international_options self options =
     invoke_m self ''set_international_options'' (invoke_m self ''require_type''
       (case require_type options (TEntity ShipStationInternationalOptions) of
          Inl e \<Rightarrow> (Inl e, self)
        | Inr _ \<Rightarrow> (Inr (), assign self ''international_options'' options)))"


text \<open>
  \<^verbatim>\<open>
  def get_weight(self):
      weight = 0
      items = self.get_items()
      weight = sum([item.weight.value * item.quantity for item in items])
      if self.dimensions and self.dimensions.weight:
          weight += self.dimensions.weight.value

      return dict(units="ounces", value=round(weight, 2))
  \<close>
\<close>

definition item_weight :: "pylib \<Rightarrow> pyval \<Rightarrow> error + pyval" where
  "item_weight lib item =
     ebind (getattr item ''weight'') (\<lambda>w.
     ebind (getattr w ''value'') (\<lambda>v.
     ebind (getattr item ''quantity'') (\<lambda>q.
       py_mul lib v q)))"

definition get_weight :: "pylib \<Rightarrow> pyval \<Rightarrow> error + pyval" where
  "get_weight lib self =
     invoke self ''get_weight'' (invoke self ''get_items'' (
     ebind (getattr self ''items'') (\<lambda>items.
     ebind (py_iter items) (\<lambda>its.
     ebind (emap (item_weight lib) its) (\<lambda>ws.
     ebind (py_sum lib ws) (\<lambda>weight.
     ebind (getattr self ''dimensions'') (\<lambda>dimensions.
     ebind (if truthy dimensions then
              ebind (getattr dimensions ''weight'') (\<lambda>dw.
                if truthy dw then
                  ebind (getattr dw ''value'') (\<lambda>v. py_add lib weight v)
                else Inr weight)
            else Inr weight) (\<lambda>weight'.
     ebind (py_round2 lib weight') (\<lambda>r.
       Inr (VDict [(''units'', VStr ''ounces''), (''value'', r)]))))))))))"

section \<open>Conversion to wire objects\<close>

text \<open>\<^verbatim>\<open>dict(items)\<close>: later items overwrite earlier ones with the same key.\<close>

definition dict_of_items :: "(string \<times> 'v) list \<Rightarrow> (string \<times> 'v) list" where
  "dict_of_items kvs = foldl (\<lambda>acc (k, v). dict_set acc k v) [] kvs"

text \<open>\<^verbatim>\<open>d[k] = v\<close> on a value \<open>d\<close>: only a dictionary takes a string key.\<close>

definition setitem :: "pyval \<Rightarrow> string \<Rightarrow> pyval \<Rightarrow> error + pyval" where
  "setitem d k v = (case d of VDict kvs \<Rightarrow> Inr (VDict (dict_set kvs k v)) | _ \<Rightarrow> Inl TypeError)"

text \<open>
  \<^verbatim>\<open>
  def as_dict(self):
      if self.__dict__:
          return {
              self.to_camel_case(key): value for key, value in self.__dict__.items()
          }
      elif self.__slots__:
          return {
              self.to_camel_case(key): self.__getattribute__(key)
              for key in self.__slots__
          }
  \<close>
  A class without \<^verbatim>\<open>__slots__\<close> has no such attribute; a slot never assigned raises.
\<close>

definition as_dict_base :: "pyval \<Rightarrow> error + pyval" where
  "as_dict_base self =
     (case self of
        VObj c sl di \<Rightarrow>
          (if di \<noteq> [] then
             invoke self ''to_camel_case'' (Inr (VDict (dict_comp to_camel_case di)))
           else (case slots_of c of
                   None \<Rightarrow> Inl AttributeError
                 | Some names \<Rightarrow>
                     (if names \<noteq> [] then
                        ebind (emap (\<lambda>k. ebind (getattr self k) (\<lambda>v. Inr (to_camel_case k, v)))
                                 names)
                          (\<lambda>kvs. Inr (VDict (dict_of_items kvs)))
                      else Inr VNone)))
      | _ \<Rightarrow> Inl AttributeError)"

text \<open>
  \<^verbatim>\<open>
  def as_dict(self):
      return {"value": self.value, "units": self.WeightUnits}
  \<close>
\<close>

definition ShipStationWeight_as_dict :: "pyval \<Rightarrow> error + pyval" where
  "ShipStationWeight_as_dict self =
     ebind (getattr self ''value'') (\<lambda>v.
     ebind (getattr self ''WeightUnits'') (\<lambda>u.
       Inr (VDict (dict_of_items [(''value'', v), (''units'', u)]))))"

text \<open>
  \<^verbatim>\<open>[x.as_dict() for x in v]\<close> where \<open>v\<close> is not a list: the characters of a string
  and the keys of a dictionary are strings, which have no \<^verbatim>\<open>as_dict\<close>.
\<close>

definition each_as_dict_other :: "pyval \<Rightarrow> error + pyval list" where
  "each_as_dict_other v =
     ebind (py_iter v) (\<lambda>xs. if xs = [] then Inr [] else Inl AttributeError)"

text \<open>
  \<^verbatim>\<open>x.as_dict()\<close>, by the class of \<open>x\<close>.

  \<^verbatim>\<open>ShipStationContainer\<close> and \<^verbatim>\<open>ShipStationItem\<close>:
  \<^verbatim>\<open>
      d = super(ShipStationItem, self).as_dict()
      return __setattr__(d, "weight", self.weight.as_dict()) if self.weight else d
  \<close>
  where \<^verbatim>\<open>__setattr__\<close> is not a name of the module.

  \<^verbatim>\<open>ShipStationInternationalOptions\<close>:
  \<^verbatim>\<open>
      d = super(ShipStationInternationalOptions, self).as_dict()
      d["customsItems"] = self.get_items_as_dicts()
      return d
  \<close>

  \<^verbatim>\<open>ShipStationOrder\<close>:
  \<^verbatim>\<open>
      d = super(ShipStationOrder, self).as_dict()
      d["items"] = self.get_items_as_dicts()
      d["dimensions"] = self.get_dimensions_as_dict()
      d["billTo"] = self.get_billing_address_as_dict()
      d["shipTo"] = self.get_shipping_address_as_dict()
      d["weight"] = self.get_weight()
      d["internationalOptions"] = self.get_international_options_as_dict()
      return d
  \<close>
  with \<^verbatim>\<open>self.x.as_dict() if self.x else None\<close> for each nested object.

  \<^verbatim>\<open>ShipStationWarehouse\<close>:
  \<^verbatim>\<open>
      d = super(ShipStationWarehouse, self).as_dict()
      if self.origin_address:
          d["originAddress"] = self.origin_address.as_dict()
      if self.return_address:
          d["returnAddress"] = self.return_address.as_dict()
      return d
  \<close>

  \<^verbatim>\<open>ShipStationCustomer\<close>:
  \<^verbatim>\<open>
      d = super(ShipStationCustomer, self).as_dict()
      if self.marketplace_usernames:
          [
              d["marketplaceUsernames"].append(i.as_dict())
              for i in self.marketplace_usernames
          ]
      return d
  \<close>
  When \<open>d\<close> was built from the slots, \<^verbatim>\<open>d["marketplaceUsernames"]\<close> is the very list
  the comprehension runs over: the loop reaches the dictionaries it has appended, which
  have no \<^verbatim>\<open>as_dict\<close>. When \<open>d\<close> was built from \<^verbatim>\<open>__dict__\<close>, the key may be missing,
  or hold a value without \<^verbatim>\<open>append\<close>, or one whose \<^verbatim>\<open>append\<close> cannot be called, which
  shows once the argument of the first call is evaluated.
\<close>

function (sequential) as_dict :: "pylib \<Rightarrow> pyval \<Rightarrow> error + pyval"
  and as_dict_each :: "pylib \<Rightarrow> pyval list \<Rightarrow> error + pyval list" where
  "as_dict lib (VObj c sl di) =
     (if shadowed (VObj c sl di) ''as_dict'' then Inl TypeError
      else if c = ShipStationWeight then ShipStationWeight_as_dict (VObj c sl di)
      else if c = ShipStationContainer \<or> c = ShipStationItem then
        ebind (as_dict_base (VObj c sl di)) (\<lambda>d.
        ebind (getattr (VObj c sl di) ''weight'') (\<lambda>w.
          if truthy w then Inl NameError else Inr d))
      else if c = ShipStationInternationalOptions then
        ebind (as_dict_base (VObj c sl di)) (\<lambda>d.
        if shadowed (VObj c sl di) ''get_items_as_dicts'' then Inl TypeError else
        ebind (getattr (VObj c sl di) ''customs_items'') (\<lambda>items.
        ebind (case items of VList xs \<Rightarrow> as_dict_each lib xs | _ \<Rightarrow> each_as_dict_other items)
          (\<lambda>ds. setitem d ''customsItems'' (VList ds))))
      else if c = ShipStationOrder then
        ebind (as_dict_base (VObj c sl di)) (\<lambda>d.
        if shadowed (VObj c sl di) ''get_items_as_dicts'' then Inl TypeError else
        ebind (getattr (VObj c sl di) ''items'') (\<lambda>items.
        ebind (case items of VList xs \<Rightarrow> as_dict_each lib xs | _ \<Rightarrow> each_as_dict_other items)
          (\<lambda>ds.
        ebind (setitem d ''items'' (VList ds)) (\<lambda>d.
        if shadowed (VObj c sl di) ''get_dimensions_as_dict'' then Inl TypeError else
        ebind (getattr (VObj c sl di) ''dimensions'') (\<lambda>x.
        ebind (if truthy x then as_dict lib x else Inr VNone) (\<lambda>xd.
        ebind (setitem d ''dimensions'' xd) (\<lambda>d.
        if shadowed (VObj c sl di) ''get_billing_address_as_dict'' then Inl TypeError else
        ebind (getattr (VObj c sl di) ''bill_to'') (\<lambda>x.
        ebind (if truthy x then as_dict lib x else Inr VNone) (\<lambda>xd.
        ebind (setitem d ''billTo'' xd) (\<lambda>d.
        if shadowed (VObj c sl di) ''get_shipping_address_as_dict'' then Inl TypeError else
        ebind (getattr (VObj c sl di) ''ship_to'') (\<lambda>x.
        ebind (if truthy x then as_dict lib x else Inr VNone) (\<lambda>xd.
        ebind (setitem d ''shipTo'' xd) (\<lambda>d.
        ebind (get_weight lib (VObj c sl di)) (\<lambda>w.
        ebind (setitem d ''weight'' w) (\<lambda>d.
        if shadowed (VObj c sl di) ''get_international_options_as_dict'' then Inl TypeError else
        ebind (getattr (VObj c sl di) ''international_options'') (\<lambda>x.
        ebind (if truthy x then as_dict lib x else Inr VNone) (\<lambda>xd.
          setitem d ''internationalOptions'' xd)))))))))))))))))
      else if c = ShipStationWarehouse then
        ebind (as_dict_base (VObj c sl di)) (\<lambda>d.
        ebind (getattr (VObj c sl di) ''origin_address'') (\<lambda>x.
        ebind (if truthy x then ebind (as_dict lib x) (setitem d ''originAddress'') else Inr d)
          (\<lambda>d.
        ebind (getattr (VObj c sl di) ''return_address'') (\<lambda>x.
          if truthy x then ebind (as_dict lib x) (setitem d ''returnAddress'') else Inr d))))
      else if c = ShipStationCustomer then
        ebind (as_dict_base (VObj c sl di)) (\<lambda>d.
        ebind (getattr (VObj c sl di) ''marketplace_usernames'') (\<lambda>mu.
          if truthy mu then
            (case d of
               VDict kvs \<Rightarrow>
                 (case mu of
                    VList xs \<Rightarrow>
                      (if di = [] then ebind (as_dict_each lib xs) (\<lambda>_. Inl AttributeError)
                       else (case map_of kvs ''marketplaceUsernames'' of
                               None \<Rightarrow> Inl KeyError
                             | Some (VList l) \<Rightarrow>
                                 ebind (as_dict_each lib xs) (\<lambda>ds.
                                   setitem d ''marketplaceUsernames'' (VList (l @ ds)))
                             | Some other \<Rightarrow>
                                 ebind (getattr other ''append'') (\<lambda>_.
                                 ebind (as_dict_each lib (take 1 xs)) (\<lambda>_. Inl TypeError))))
                  | _ \<Rightarrow>
                      ebind (py_iter mu) (\<lambda>_.
                        if di = [] then Inl AttributeError
                        else (case map_of kvs ''marketplaceUsernames'' of
                                None \<Rightarrow> Inl KeyError
                              | Some _ \<Rightarrow> Inl AttributeError)))
             | _ \<Rightarrow> ebind (py_iter mu) (\<lambda>_. Inl TypeError))
          else Inr d))
      else as_dict_base (VObj c sl di))"
| "as_dict lib v = Inl AttributeError"
| "as_dict_each lib [] = Inr []"
| "as_dict_each lib (x # xs) =
     ebind (as_dict lib x) (\<lambda>d. ebind (as_dict_each lib xs) (\<lambda>ds. Inr (d # ds)))"
  by pat_completeness auto
termination
proof -
  have entry: "size v < size_list (size_prod (\<lambda>_. 0) size) kvs"
    if "map_of kvs k = Some v" for kvs :: "(string \<times> pyval) list" and k v
    using that by (induction kvs) (auto split: if_splits)
  have attribute: "size v < size self" if "getattr self name = Inr v" for self name v
    using that by (cases self) (auto split: option.splits if_splits dest!: entry)
  have first: "size (hd xs) < size_list size xs" if "xs \<noteq> []" for xs :: "pyval list"
    using that by (cases xs) simp_all
  show ?thesis
    apply (relation "measure (\<lambda>a. case a of Inl (lib, v) \<Rightarrow> 2 * size v
                                           | Inr (lib, xs) \<Rightarrow> 2 * size_list size xs + 1)")
    apply (auto simp del: getattr.simps simp: take_Suc dest!: attribute dest: first)
    done
qed

text \<open>
  \<^verbatim>\<open>
  def json(self):
      j = self.as_dict()
      for key, value in j.items():
          if isinstance(value, bool):
              j[key] = "true" if value else "false"
          elif isinstance(value, (int, float, Decimal)):
              j[key] = str(value)
          elif isinstance(value, type) and value.__class__.split(".")[-1] in __all__:
              j[key] = value.json()
      return json.dumps(j)
  \<close>
  Only a class is an instance of \<^verbatim>\<open>type\<close>, and no value of the model is a class: the
  third branch is never taken for an instance of a model class, which stays in \<open>j\<close> as
  it is. (On a class the branch would raise: its \<^verbatim>\<open>__class__\<close> is \<^verbatim>\<open>type\<close>, which has
  no \<^verbatim>\<open>split\<close>.)
\<close>

fun json_coerce :: "pylib \<Rightarrow> pyval \<Rightarrow> error + pyval" where
  "json_coerce lib (VBool b) = Inr (VStr (if b then ''true'' else ''false''))"
| "json_coerce lib (VInt i) = Inr (VStr (py_str lib (VInt i)))"
| "json_coerce lib (VFloat w) = Inr (VStr (py_str lib (VFloat w)))"
| "json_coerce lib (VDecimal d) = Inr (VStr (py_str lib (VDecimal d)))"
| "json_coerce lib v = Inr v"

definition ShipStationBase_json :: "pylib \<Rightarrow> pyval \<Rightarrow> error + pyval" where
  "ShipStationBase_json lib self =
     ebind (as_dict lib self) (\<lambda>j.
       (case j of
          VDict kvs \<Rightarrow>
            ebind (emap (\<lambda>(k, v). ebind (json_coerce lib v) (\<lambda>v'. Inr (k, v'))) kvs) (\<lambda>kvs'.
              json_dumps lib (VDict kvs'))
        | _ \<Rightarrow> Inl AttributeError))"

text \<open>
  \<^verbatim>\<open>
  def json(self):
      return json.dumps(self.as_dict())
  \<close>
  in \<^verbatim>\<open>ShipStationOrder\<close>.
\<close>

definition ShipStationOrder_json :: "pylib \<Rightarrow> pyval \<Rightarrow> error + pyval" where
  "ShipStationOrder_json lib self = ebind (as_dict lib self) (json_dumps lib)"

text \<open>\<^verbatim>\<open>x.json()\<close>, by the class of \<open>x\<close>; a response gives its decoded body.\<close>

fun json :: "pylib \<Rightarrow> pyval \<Rightarrow> error + pyval" where
  "json lib (VObj c sl di) =
     (if shadowed (VObj c sl di) ''json'' then Inl TypeError
      else if c = ShipStationOrder then ShipStationOrder_json lib (VObj c sl di)
      else ShipStationBase_json lib (VObj c sl di))"
| "json lib (VResponse st body) = (case body of None \<Rightarrow> Inl ValueError | Some b \<Rightarrow> Inr b)"
| "json lib v = Inl AttributeError"

section \<open>Conversion from wire objects\<close>

text \<open>\<^verbatim>\<open>object_type()\<close>: the constructor without arguments.\<close>

definition construct :: "constants \<Rightarrow> string \<Rightarrow> cls \<Rightarrow> error + pyval" where
  "construct consts now c =
     (if c = ShipStationCustomsItem then
        ShipStationCustomsItem_init VNone (VInt 1) (VDecimal (Decimal False 0 0)) VNone VNone
      else if c = ShipStationInternationalOptions then
        ShipStationInternationalOptions_init consts VNone (VStr ''return_to_sender'')
      else if c = ShipStationWeight then Inr (ShipStationWeight_init VNone VNone)
      else if c = ShipStationContainer then
        Inr (ShipStationContainer_init VNone VNone VNone VNone)
      else if c = ShipStationItem then
        Inr (ShipStationItem_init VNone VNone VNone VNone VNone VNone VNone VNone)
      else if c = ShipStationOrder then Inr (ShipStationOrder_init now VNone VNone)
      else Inr (init_fields c []))"

text \<open>
  \<^verbatim>\<open>
  def from_json(self, json_str):
      if isinstance(json_str, Response):
          s = json_str.json()
      elif isinstance(json_str, str):
          s = json.loads(json_str)
      else:
          s = json_str  # allow dict to pass
      for key, value in s.items():
          setattr(self, self.to_snake_case(key), value)
      return self
  \<close>
  The result is \<open>self\<close> after the loop, or the exception that ended it. Each round
  calls \<^verbatim>\<open>self.to_snake_case\<close>, which an earlier round may have hidden.
  \<open>items_of s\<close> is \<^verbatim>\<open>s.items()\<close>: the entries of a dict; on an object an attribute
  \<open>items\<close> that cannot be called; on anything else no such attribute.
\<close>

definition items_of :: "pyval \<Rightarrow> error + (string \<times> pyval) list" where
  "items_of s =
     (case s of
        VDict kvs \<Rightarrow> Inr kvs
      | VObj c sl di \<Rightarrow> ebind (getattr s ''items'') (\<lambda>_. Inl TypeError)
      | _ \<Rightarrow> Inl AttributeError)"

definition decode_source :: "pylib \<Rightarrow> pyval \<Rightarrow> error + pyval" where
  "decode_source lib json_str =
     (case json_str of
        VResponse st body \<Rightarrow> (case body of None \<Rightarrow> Inl ValueError | Some b \<Rightarrow> Inr b)
      | VStr t \<Rightarrow> json_loads lib t
      | _ \<Rightarrow> Inr json_str)"

fun setattr_items :: "pyval \<Rightarrow> (string \<times> pyval) list \<Rightarrow> error + pyval" where
  "setattr_items self [] = Inr self"
| "setattr_items self ((k, v) # kvs) =
     (case invoke self ''to_snake_case'' (setattr self (to_snake_case k) v) of
        Inl e \<Rightarrow> Inl e
      | Inr self' \<Rightarrow> setattr_items self' kvs)"

definition ShipStationBase_from_json :: "pylib \<Rightarrow> pyval \<Rightarrow> pyval \<Rightarrow> error + pyval" where
  "ShipStationBase_from_json lib self json_str =
     ebind (decode_source lib json_str) (\<lambda>s.
     ebind (items_of s) (\<lambda>kvs. setattr_items self kvs))"

text \<open>
  \<^verbatim>\<open>
  def from_json(self, json_str):
      d = super(ShipStationWarehouse, self).from_json(json_str)
      if d.origin_address:
          d.origin_address = ShipStationAddress().from_json(d.origin_address)
      if d.return_address:
          d.return_address = ShipStationAddress().from_json(d.return_address)
      return d
  \<close>
\<close>

definition ShipStationWarehouse_from_json :: "pylib \<Rightarrow> pyval \<Rightarrow> pyval \<Rightarrow> error + pyval" where
  "ShipStationWarehouse_from_json lib self json_str =
     ebind (ShipStationBase_from_json lib self json_str) (\<lambda>d.
     ebind (getattr d ''origin_address'') (\<lambda>a.
     ebind (if truthy a then
              ebind (ShipStationBase_from_json lib (init_fields ShipStationAddress []) a)
                (\<lambda>a'. Inr (assign d ''origin_address'' a'))
            else Inr d) (\<lambda>d.
     ebind (getattr d ''return_address'') (\<lambda>a.
       if truthy a then
         ebind (ShipStationBase_from_json lib (init_fields ShipStationAddress []) a)
           (\<lambda>a'. Inr (assign d ''return_address'' a'))
       else Inr d))))"

text \<open>
  \<^verbatim>\<open>
  def from_json(self, json_str):
      d = super(ShipStationCustomer, self).from_json(json_str)
      marketplace_usernames = []
      if d.marketplace_usernames:
          [
              marketplace_usernames.append(
                  ShipStationMarketplaceUsername().from_json(i)
              )
              for i in d.marketplace_usernames
          ]
          d.marketplace_usernames = marketplace_usernames
      return d
  \<close>
\<close>

definition ShipStationCustomer_from_json :: "pylib \<Rightarrow> pyval \<Rightarrow> pyval \<Rightarrow> error + pyval" where
  "ShipStationCustomer_from_json lib self json_str =
     ebind (ShipStationBase_from_json lib self json_str) (\<lambda>d.
     ebind (getattr d ''marketplace_usernames'') (\<lambda>mu.
       if truthy mu then
         ebind (py_iter mu) (\<lambda>xs.
         ebind (emap (ShipStationBase_from_json lib
                        (init_fields ShipStationMarketplaceUsername [])) xs) (\<lambda>us.
           Inr (assign d ''marketplace_usernames'' (VList us))))
       else Inr d))"

text \<open>\<^verbatim>\<open>x.from_json(json_str)\<close>, by the class of \<open>x\<close>.\<close>

fun from_json :: "pylib \<Rightarrow> pyval \<Rightarrow> pyval \<Rightarrow> error + pyval" where
  "from_json lib (VObj c sl di) json_str =
     (if shadowed (VObj c sl di) ''from_json'' then Inl TypeError
      else if c = ShipStationWarehouse then
        ShipStationWarehouse_from_json lib (VObj c sl di) json_str
      else if c = ShipStationCustomer then
        ShipStationCustomer_from_json lib (VObj c sl di) json_str
      else ShipStationBase_from_json lib (VObj c sl di) json_str)"
| "from_json lib v json_str = Inl AttributeError"

text \<open>\<^verbatim>\<open>object_type().from_json(obj)\<close>\<close>

definition from_wire :: "constants \<Rightarrow> string \<Rightarrow> pylib \<Rightarrow> cls \<Rightarrow> pyval \<Rightarrow> error + pyval" where
  "from_wire consts now lib object_type obj =
     ebind (construct consts now object_type) (\<lambda>self. from_json lib self obj)"

text \<open>
  \<^verbatim>\<open>
  def object_list(self, r, object_type):
      if isinstance(r, list):  # already a list of json/objects
          return [object_type().from_json(obj) for obj in r]
      r = r.json()
      r = [r] if isinstance(r, dict) else r
      return [object_type().from_json(obj) for obj in r]
  \<close>
  Of the values that are not lists, a response has a \<^verbatim>\<open>json\<close> method (its decoded
  body) and so has an instance of a model class (its serialisation, a string); any
  other value has none.
\<close>

definition object_list ::
  "constants \<Rightarrow> string \<Rightarrow> pylib \<Rightarrow> pyval \<Rightarrow> cls \<Rightarrow> error + pyval list" where
  "object_list consts now lib r object_type =
     (case r of
        VList xs \<Rightarrow> emap (from_wire consts now lib object_type) xs
      | _ \<Rightarrow>
        ebind (json lib r) (\<lambda>r.
        ebind (py_iter (if isinstance r TDict then VList [r] else r)) (\<lambda>xs.
          emap (from_wire consts now lib object_type) xs)))"

section \<open>The facade: \<^verbatim>\<open>api.py\<close> and \<^verbatim>\<open>aio.py\<close>\<close>

text \<open>
  A request as handed to the HTTP library, and the client object. \<open>sent\<close> is not a field
  of the class: it records, in order, the requests handed to the HTTP library so far.
  The network is a parameter \<open>net\<close>: what the HTTP library returns for a request, a
  response or an exception.
\<close>

record request =
  rq_method :: string
  rq_url :: string
  rq_auth :: "pyval \<times> pyval"
  rq_params :: pyval
  rq_data :: pyval
  rq_headers :: "(string \<times> string) list"
  rq_timeout :: pyval

record client =
  self_url :: string
  self_key :: pyval
  self_secret :: pyval
  self_orders :: "pyval list"
  self_timeout :: pyval
  self_debug :: pyval
  sent :: "request list"





subsection \<open>The request methods of \<^verbatim>\<open>api.py\<close>\<close>

text \<open>\<^verbatim>\<open>r.json()\<close> for what the HTTP library returned.\<close>

definition response_json :: "pyval \<Rightarrow> error + pyval" where
  "response_json r =
     (case r of
        VResponse st body \<Rightarrow> (case body of None \<Rightarrow> Inl ValueError | Some b \<Rightarrow> Inr b)
      | _ \<Rightarrow> Inl AttributeError)"

text \<open>
  Handing a request to the HTTP library; with \<^verbatim>\<open>self.debug\<close> the body is decoded
  for printing (\<open>decode\<close>), which can raise.
\<close>

definition perform ::
  "(request \<Rightarrow> error + pyval) \<Rightarrow> client \<Rightarrow> request \<Rightarrow> bool \<Rightarrow> (error + pyval) \<times> client" where
  "perform net c req decode =
     (let c' = c\<lparr>sent := sent c @ [req]\<rparr> in
      (case net req of
         Inl e \<Rightarrow> (Inl e, c')
       | Inr r \<Rightarrow>
           (if truthy (self_debug c) \<and> decode then
              (case response_json r of Inl e \<Rightarrow> (Inl e, c') | Inr _ \<Rightarrow> (Inr r, c'))
            else (Inr r, c'))))"

text \<open>
  \<^verbatim>\<open>
  def get(self, endpoint="", payload=None):
      url = "{}{}".format(self.url, endpoint)
      r = requests.get(
          url, auth=(self.key, self.secret), params=payload, timeout=self.timeout
      )
      if self.debug:
          pprint.PrettyPrinter(indent=4).pprint('GET ' + url)
          pprint.PrettyPrinter(indent=4).pprint(r.json())
      return r
  \<close>
  and likewise \<^verbatim>\<open>post\<close> and \<^verbatim>\<open>put\<close> (with \<^verbatim>\<open>data\<close> and the JSON content type)
  and \<^verbatim>\<open>delete\<close> (which prints the response without decoding it).
\<close>

definition api_get ::
  "(request \<Rightarrow> error + pyval) \<Rightarrow> client \<Rightarrow> string \<Rightarrow> pyval \<Rightarrow> (error + pyval) \<times> client" where
  "api_get net c endpoint payload =
     perform net c
       \<lparr>rq_method = ''GET'', rq_url = self_url c @ endpoint,
        rq_auth = (self_key c, self_secret c), rq_params = payload, rq_data = VNone,
        rq_headers = [], rq_timeout = self_timeout c\<rparr> True"





text \<open>
  \<^verbatim>\<open>
  def fetch_orders(self, parameters={}):
      self.require_type(parameters, dict)
      invalid_keys = set(parameters.keys()).difference(ORDER_LIST_PARAMETERS)
      if invalid_keys:
          raise AttributeError(
              "Invalid order list parameters: {}".format(", ".join(invalid_keys))
          )

      valid_parameters = {
          self.to_camel_case(key): value for key, value in parameters.items()
      }

      return self.get(endpoint="/orders/list", payload=valid_parameters)
  \<close>
  The part before the request is the same text in both variants: it gives the
  exception, or the query parameters. \<^verbatim>\<open>None\<close> passes \<^verbatim>\<open>require_type\<close> and has no
  \<^verbatim>\<open>keys\<close>.
\<close>

definition fetch_orders_parameters :: "constants \<Rightarrow> pyval \<Rightarrow> error + pyval" where
  "fetch_orders_parameters consts parameters =
     ebind (require_type parameters TDict) (\<lambda>_.
       (case parameters of
          VDict d \<Rightarrow>
            (let invalid_keys = filter (\<lambda>k. k \<notin> set (ORDER_LIST_PARAMETERS consts)) (map fst d)
             in if invalid_keys \<noteq> [] then Inl AttributeError
                else Inr (VDict (dict_comp to_camel_case d)))
        | _ \<Rightarrow> Inl AttributeError))"

definition api_fetch_orders ::
  "(request \<Rightarrow> error + pyval) \<Rightarrow> constants \<Rightarrow> client \<Rightarrow> pyval \<Rightarrow> (error + pyval) \<times> client" where
  "api_fetch_orders net consts c parameters =
     (case fetch_orders_parameters consts parameters of
        Inl e \<Rightarrow> (Inl e, c)
      | Inr valid_parameters \<Rightarrow> api_get net c ''/orders/list'' valid_parameters)"





text \<open>
  \<^verbatim>\<open>
  def get_customer(self, customer_id):
      return self.get(
          endpoint="/customers/customerId", payload={"carrierCode": customer_id}
      )
  \<close>
\<close>

definition api_get_customer ::
  "(request \<Rightarrow> error + pyval) \<Rightarrow> client \<Rightarrow> pyval \<Rightarrow> (error + pyval) \<times> client" where
  "api_get_customer net c customer_id =
     api_get net c ''/customers/customerId'' (VDict [(''carrierCode'', customer_id)])"

















subsection \<open>Operations that read options\<close>























subsection \<open>Every operation of \<^verbatim>\<open>api.py\<close>\<close>



subsection \<open>\<^verbatim>\<open>aio.py\<close>\<close>

text \<open>
  \<^verbatim>\<open>
  async def get(self, endpoint="", payload=None):
      url = "{}{}".format(self.url, endpoint)
      r = await httpx.get(
          url, auth=(self.key, self.secret), params=payload, timeout=self.timeout
      )
      ...
  \<close>
  Calling an \<^verbatim>\<open>async def\<close> runs nothing of its body: it returns a coroutine, and no
  request is made until the caller awaits it.
\<close>

definition aio_get :: "client \<Rightarrow> string \<Rightarrow> pyval \<Rightarrow> pyval" where
  "aio_get c endpoint payload = VCoroutine ''GET'' endpoint payload"

text \<open>\<^verbatim>\<open>fetch_orders\<close> of \<^verbatim>\<open>aio.py\<close> is a plain \<^verbatim>\<open>def\<close> with the body of the one in
  \<^verbatim>\<open>api.py\<close>; its \<^verbatim>\<open>self.get\<close> is the \<^verbatim>\<open>async def\<close>.\<close>

definition aio_fetch_orders :: "constants \<Rightarrow> client \<Rightarrow> pyval \<Rightarrow> (error + pyval) \<times> client" where
  "aio_fetch_orders consts c parameters =
     (case fetch_orders_parameters consts parameters of
        Inl e \<Rightarrow> (Inl e, c)
      | Inr valid_parameters \<Rightarrow> (Inr (aio_get c ''/orders/list'' valid_parameters), c))"

text \<open>
  \<^verbatim>\<open>
  def get_customer(self, customer_id):
      return ShipStationCustomer().from_json(
          self.get(endpoint="/customers/" + str(customer_id))
      )
  \<close>
\<close>

definition aio_get_customer ::
  "constants \<Rightarrow> string \<Rightarrow> pylib \<Rightarrow> client \<Rightarrow> pyval \<Rightarrow> (error + pyval) \<times> client" where
  "aio_get_customer consts now lib c customer_id =
     (from_wire consts now lib ShipStationCustomer
        (aio_get c (''/customers/'' @ py_str lib customer_id) VNone), c)"



































subsection \<open>Every operation of \<^verbatim>\<open>aio.py\<close>\<close>





section \<open>Predicates and sample values for the statements\<close>

text \<open>
  A name whose segments between underscores are non-empty and all lower-case letters;
  and a name in which every segment but the first and the last has two letters or more.
\<close>

definition lower_segments :: "string \<Rightarrow> bool" where
  "lower_segments s =
     list_all (\<lambda>seg. seg \<noteq> [] \<and> list_all islower_c seg) (str_split (CHR ''_'') s)"

definition inner_segments_long :: "string \<Rightarrow> bool" where
  "inner_segments_long s =
     list_all (\<lambda>seg. 2 \<le> length seg) (butlast (tl (str_split (CHR ''_'') s)))"

text \<open>
  Sample values of the enumerations of the absent \<^verbatim>\<open>constants.py\<close>, for the
  concrete instances below; no theorem about the code depends on them.
\<close>

definition sample_constants :: constants where
  "sample_constants =
     \<lparr>ORDER_LIST_PARAMETERS = [''customer_name'', ''order_status'', ''page'', ''page_size''],
      ORDER_STATUS_VALUES =
        [''awaiting_payment'', ''awaiting_shipment'', ''shipped'', ''on_hold'', ''cancelled''],
      WEIGHT_UNIT_OPTIONS = [''pounds'', ''ounces'', ''grams''],
      CONTENTS_VALUES = [''merchandise'', ''documents'', ''gift'', ''returned_goods'', ''sample''],
      NON_DELIVERY_OPTIONS = [''return_to_sender'', ''treat_as_abandoned''],
      CUSTOMER_LIST_PARAMETERS = [''state_code'', ''country_code'', ''page'', ''page_size''],
      FULFILLMENT_LIST_PARAMETERS = [''order_id'', ''page'', ''page_size''],
      SHIPMENT_LIST_PARAMETERS = [''carrier_code'', ''page'', ''page_size''],
      CREATE_SHIPMENT_LABEL_OPTIONS =
        [''carrier_code'', ''service_code'', ''package_code'', ''ship_date'', ''weight'',
         ''dimensions'', ''ship_from'', ''ship_to''],
      GET_RATE_OPTIONS =
        [''carrier_code'', ''from_postal_code'', ''to_country'', ''to_postal_code'', ''weight'',
         ''dimensions''],
      REQUIRED_RATE_OPTIONS =
        [''carrier_code'', ''from_postal_code'', ''to_country'', ''to_postal_code'', ''weight''],
      UPDATE_STORE_OPTIONS = [''store_id'', ''store_name'', ''status_mappings''],
      UPDATE_WAREHOUSE_OPTIONS = [''warehouse_id'', ''warehouse_name'', ''origin_address''],
      CREATE_WAREHOUSE_OPTIONS = [''warehouse_name'', ''origin_address'', ''return_address''],
      SUBSCRIBE_TO_WEBHOOK_OPTIONS = [''target_url'', ''event'', ''store_id'', ''friendly_name''],
      SUBSCRIBE_TO_WEBHOOK_EVENT_OPTIONS =
        [''ORDER_NOTIFY'', ''ITEM_ORDER_NOTIFY'', ''SHIP_NOTIFY'', ''ITEM_SHIP_NOTIFY'']\<rparr>"

text \<open>A client as the constructor of \<^verbatim>\<open>api.py\<close> returns it, and a network that
  answers every request with an empty JSON object.\<close>

definition sample_client :: client where
  "sample_client =
     \<lparr>self_url = ''https://ssapi.shipstation.com'', self_key = VStr ''key'',
      self_secret = VStr ''secret'', self_orders = [],
      self_timeout = VFloat 0x3FF0000000000000, self_debug = VBool False, sent = []\<rparr>"

definition sample_net :: "request \<Rightarrow> error + pyval" where
  "sample_net req = Inr (VResponse 200 (Some (VDict [])))"


text \<open>An order numbered 1001 whose status was set to \<^verbatim>\<open>"shipped"\<close>.\<close>

definition shipped_order :: pyval where
  "shipped_order =
     snd (set_status sample_constants
            (ShipStationOrder_init ''2020-01-01T00:00:00'' VNone (VStr ''1001''))
            (VStr ''shipped''))"

text \<open>
  The scenario of the specification: an item with quantity 2 and a weight of 3 ounces,
  an order numbered 1001 holding it, and a container weighing 4 ounces.
\<close>

definition scenario_item :: pyval where
  "scenario_item =
     snd (set_weight (ShipStationItem_init VNone VNone VNone VNone (VInt 2) VNone VNone VNone)
            (ShipStationWeight_init (VStr ''ounces'') (VInt 3)))"



section \<open>Theorems\<close>

subsection \<open>Naming converter\<close>

lemma str_split_nonempty: "str_split sep s \<noteq> []"
  by (induction s) (auto split: list.splits)

lemma upper_c_code:
  assumes "islower_c c"
  shows "of_char (upper_c c) = (of_char c :: nat) - 32"
proof -
  let ?n = "of_char c :: nat"
  from assms have r: "97 \<le> ?n" "?n \<le> 122" by (simp_all add: islower_c_def)
  then have "(?n - 32) mod 256 = ?n - 32" by simp
  with assms show ?thesis by (simp add: upper_c_def)
qed

lemma isupper_upper_c:
  assumes "islower_c c"
  shows "isupper_c (upper_c c)"
proof -
  from assms have "97 \<le> (of_char c :: nat)" "(of_char c :: nat) \<le> 122"
    by (simp_all add: islower_c_def)
  then have "65 \<le> (of_char c :: nat) - 32" "(of_char c :: nat) - 32 \<le> 90" by arith+
  then show ?thesis using upper_c_code [OF assms] by (simp add: isupper_c_def)
qed

lemma lower_upper_c:
  assumes "islower_c c"
  shows "lower_c (upper_c c) = c"
proof -
  let ?n = "of_char c :: nat"
  from assms have r: "97 \<le> ?n" "?n \<le> 122" by (simp_all add: islower_c_def)
  then have "(?n - 32) + 32 = ?n" by simp
  then have "char_of ((?n - 32) + 32) = c" by simp
  with assms show ?thesis
    using isupper_upper_c [of c] upper_c_code [of c] by (simp add: lower_c_def)
qed

lemma islower_not_upper: "islower_c c \<Longrightarrow> \<not> isupper_c c"
  by (simp add: islower_c_def isupper_c_def)

lemma lower_c_islower: "islower_c c \<Longrightarrow> lower_c c = c"
  by (simp add: lower_c_def islower_not_upper)

lemma lower_c_underscore: "lower_c (CHR ''_'') = CHR ''_''"
  by (simp add: lower_c_def isupper_c_def)

lemma str_join_Cons: "str_join sep (w # rest) = w @ concat (map ((@) sep) rest)"
  by (induction rest arbitrary: w) auto

lemma str_join_split: "str_join [sep] (str_split sep s) = s"
proof (induction s)
  case Nil
  then show ?case by simp
next
  case (Cons c cs)
  obtain t ts where ts: "str_split sep cs = t # ts"
    using str_split_nonempty [of sep cs] by (cases "str_split sep cs") auto
  with Cons show ?case by (simp add: str_join_Cons)
qed

lemma title_from_True_lower: "list_all islower_c t \<Longrightarrow> title_from True t = t"
  by (induction t) auto

lemma str_title_lower_seg:
  "list_all islower_c (a # t) \<Longrightarrow> str_title (a # t) = upper_c a # t"
  by (simp add: str_title_def title_from_True_lower)

lemma sub_lower_word: "list_all islower_c w \<Longrightarrow> snake_case_regex_sub w = w"
  by (induction w rule: snake_case_regex_sub.induct) (auto simp: islower_not_upper)

lemma sub_lower_then_upper:
  "list_all islower_c w \<Longrightarrow> w \<noteq> [] \<Longrightarrow> isupper_c u \<Longrightarrow>
   snake_case_regex_sub (w @ u # t) = w @ CHR ''_'' # u # snake_case_regex_sub t"
proof (induction w)
  case Nil
  then show ?case by simp
next
  case (Cons a w)
  show ?case
  proof (cases w)
    case Nil
    with Cons.prems show ?thesis by simp
  next
    case (Cons b w')
    with Cons.prems Cons.IH show ?thesis by (simp add: islower_not_upper)
  qed
qed

lemma sub_camel:
  "list_all islower_c w \<Longrightarrow> (rest \<noteq> [] \<longrightarrow> w \<noteq> []) \<Longrightarrow>
   list_all (\<lambda>seg. seg \<noteq> [] \<and> list_all islower_c seg) rest \<Longrightarrow>
   list_all (\<lambda>seg. 2 \<le> length seg) (butlast rest) \<Longrightarrow>
   snake_case_regex_sub (w @ concat (map str_title rest)) =
     w @ concat (map (\<lambda>seg. CHR ''_'' # str_title seg) rest)"
proof (induction rest arbitrary: w)
  case Nil
  then show ?case by (simp add: sub_lower_word)
next
  case (Cons seg rest)
  from Cons.prems obtain a t where seg: "seg = a # t" by (cases seg) auto
  from Cons.prems seg have low: "list_all islower_c (a # t)" by simp
  have tl: "str_title seg = upper_c a # t" using low seg by (simp add: str_title_lower_seg)
  have up: "isupper_c (upper_c a)" using low by (simp add: isupper_upper_c)
  have wne: "w \<noteq> []" using Cons.prems by simp
  have tne: "rest \<noteq> [] \<longrightarrow> t \<noteq> []" using Cons.prems(4) seg by auto
  have bl: "list_all (\<lambda>seg. 2 \<le> length seg) (butlast rest)"
    using Cons.prems(4) by (auto split: if_splits)
  have ih: "snake_case_regex_sub (t @ concat (map str_title rest)) =
     t @ concat (map (\<lambda>seg. CHR ''_'' # str_title seg) rest)"
    using Cons.IH [of t] low tne Cons.prems(3) bl by simp
  have "snake_case_regex_sub (w @ upper_c a # (t @ concat (map str_title rest))) =
        w @ CHR ''_'' # upper_c a # snake_case_regex_sub (t @ concat (map str_title rest))"
    using sub_lower_then_upper [OF Cons.prems(1) wne up] by simp
  with ih tl show ?case by simp
qed

lemma str_lower_word: "list_all islower_c w \<Longrightarrow> str_lower w = w"
  by (induction w) (auto simp: str_lower_def lower_c_islower)

lemma str_lower_title_seg:
  "seg \<noteq> [] \<Longrightarrow> list_all islower_c seg \<Longrightarrow> str_lower (str_title seg) = seg"
  using str_lower_word [of "tl seg"]
  by (cases seg) (auto simp: str_title_lower_seg str_lower_def lower_upper_c)

lemma str_lower_concat_titles:
  "list_all (\<lambda>seg. seg \<noteq> [] \<and> list_all islower_c seg) rest \<Longrightarrow>
   str_lower (concat (map (\<lambda>seg. CHR ''_'' # str_title seg) rest)) = concat (map ((@) ''_'') rest)"
proof (induction rest)
  case Nil
  then show ?case by (simp add: str_lower_def)
next
  case (Cons seg rest)
  then have "str_lower (str_title seg) = seg" by (simp add: str_lower_title_seg)
  with Cons show ?case by (simp add: str_lower_def lower_c_underscore)
qed

lemma str_lower_concat_segs:
  "list_all (\<lambda>seg. seg \<noteq> [] \<and> list_all islower_c seg) rest \<Longrightarrow>
   str_lower (concat (map ((@) ''_'') rest)) = concat (map ((@) ''_'') rest)"
proof (induction rest)
  case Nil
  then show ?case by (simp add: str_lower_def)
next
  case (Cons seg rest)
  then have "str_lower seg = seg" by (simp add: str_lower_word)
  with Cons show ?case by (simp add: str_lower_def lower_c_underscore)
qed

text \<open>
  C4 (as amended). For every name whose segments are non-empty runs of lower-case
  letters joined by single underscores, and in which every segment other than the
  first and the last has at least two letters, converting to the wire name and back
  gives the name again.
\<close>

theorem snake_camel_round_trip:
  assumes segs: "lower_segments s" and inner: "inner_segments_long s"
  shows "to_snake_case (to_camel_case s) = s"
proof -
  obtain w rest where sp: "str_split (CHR ''_'') s = w # rest"
    using str_split_nonempty [of "CHR ''_''" s] by (cases "str_split (CHR ''_'') s") auto
  have s: "s = w @ concat (map ((@) ''_'') rest)"
    using str_join_split [of "CHR ''_''" s] sp by (simp add: str_join_Cons)
  have w: "list_all islower_c w" "w \<noteq> []" using segs sp by (simp_all add: lower_segments_def)
  have rest: "list_all (\<lambda>seg. seg \<noteq> [] \<and> list_all islower_c seg) rest"
    using segs sp by (simp add: lower_segments_def)
  have bl: "list_all (\<lambda>seg. 2 \<le> length seg) (butlast rest)"
    using inner sp by (simp add: inner_segments_long_def)
  have "str_lower s = s"
    using s str_lower_word [OF w(1)] str_lower_concat_segs [OF rest] by (simp add: str_lower_def)
  then have camel: "to_camel_case s = w @ concat (map str_title rest)"
    by (simp add: to_camel_case_def sp)
  have "snake_case_regex_sub (w @ concat (map str_title rest)) =
     w @ concat (map (\<lambda>seg. CHR ''_'' # str_title seg) rest)"
    using sub_camel [of w rest] w rest bl by simp
  then have "to_snake_case (to_camel_case s) =
     str_lower w @ str_lower (concat (map (\<lambda>seg. CHR ''_'' # str_title seg) rest))"
    using camel by (simp add: to_snake_case_def str_lower_def)
  also have "\<dots> = w @ concat (map ((@) ''_'') rest)"
    using str_lower_word [OF w(1)] str_lower_concat_titles [OF rest] by simp
  finally show ?thesis using s by simp
qed

theorem snake_camel_round_trip_witness:
  "lower_segments ''order_status'' \<and> inner_segments_long ''order_status''
   \<and> to_snake_case (to_camel_case ''order_status'') = ''order_status''"
proof -
  have h1: "lower_segments ''order_status''" by code_simp
  have h2: "inner_segments_long ''order_status''" by code_simp
  show ?thesis using h1 h2 snake_camel_round_trip [OF h1 h2] by simp
qed

text \<open>
  The claim as stated, for all lower-case segments, fails at \<^verbatim>\<open>a_b_c\<close>: the wire name
  is \<^verbatim>\<open>aBC\<close>, and the pattern finds no lower-case letter before \<^verbatim>\<open>C\<close>.
\<close>

theorem snake_camel_round_trip_counterexample:
  "lower_segments ''a_b_c'' \<and> to_camel_case ''a_b_c'' = ''aBC''
   \<and> to_snake_case (to_camel_case ''a_b_c'') = ''a_bc''
   \<and> to_snake_case (to_camel_case ''a_b_c'') \<noteq> ''a_b_c''"
  by code_simp

subsection \<open>Attributes\<close>

lemma map_of_dict_set:
  "map_of (dict_set d k v) k' = (if k' = k then Some v else map_of d k')"
  by (induction d) auto

lemma getattr_assign:
  "getattr (assign (VObj c sl di) n v) n' =
     (if n' = n then Inr v else getattr (VObj c sl di) n')"
  by (simp add: map_of_dict_set)

subsection \<open>Validation helpers and constructors\<close>

text \<open>
  C2. \<^verbatim>\<open>_validate_parameters\<close> never looks at its second argument: a mapping with a
  key outside the allowed keys is returned, renamed, and nothing is raised.
\<close>

theorem validate_parameters_unchecked:
  "validate_parameters (VDict [(''bogus_key'', VInt 1)]) [''page''] =
     Inr (VDict [(''bogusKey'', VInt 1)])"
  by code_simp

lemma validate_parameters_dict:
  "validate_parameters (VDict d) allowed = Inr (VDict (dict_comp to_camel_case d))"
  by (simp add: validate_parameters_def require_type_def )

lemma customs_self:
  "assigns (VObj ShipStationCustomsItem [] [])
        [(''description'', d), (''quantity'', q), (''value'', v),
         (''harmonized_tariff_code'', h), (''country_of_origin'', c)] =
   VObj ShipStationCustomsItem []
        [(''description'', d), (''quantity'', q), (''value'', v),
         (''harmonized_tariff_code'', h), (''country_of_origin'', c)]"
  by (simp add: slot_names_def)

text \<open>
  C5. Constructing a Customs Item raises when the description, the tariff code or the
  country of origin is false (absent or empty), when the country of origin is a string
  of a length other than two, and when the value is given and is not a \<^verbatim>\<open>Decimal\<close>;
  it succeeds, storing its five arguments, when the description and the tariff code are
  true, the country of origin is a string of two characters and the value is a
  \<^verbatim>\<open>Decimal\<close>.
\<close>

theorem customs_item_construction:
  "(\<not> truthy description \<or> \<not> truthy harmonized_tariff_code \<or> \<not> truthy country_of_origin \<longrightarrow>
      ShipStationCustomsItem_init description quantity val harmonized_tariff_code
        country_of_origin = Inl AttributeError)
   \<and> (country_of_origin = VStr s \<and> length s \<noteq> 2 \<longrightarrow>
      ShipStationCustomsItem_init description quantity val harmonized_tariff_code
        country_of_origin = Inl AttributeError)
   \<and> (val \<noteq> VNone \<and> \<not> isinstance val TDecimal \<longrightarrow>
      ShipStationCustomsItem_init description quantity val harmonized_tariff_code
        country_of_origin = Inl AttributeError)
   \<and> (truthy description \<and> truthy harmonized_tariff_code \<and> country_of_origin = VStr [a, b]
       \<and> val = VDecimal dec \<longrightarrow>
      ShipStationCustomsItem_init description quantity val harmonized_tariff_code
        country_of_origin =
        Inr (VObj ShipStationCustomsItem []
               [(''description'', description), (''quantity'', quantity), (''value'', val),
                (''harmonized_tariff_code'', harmonized_tariff_code),
                (''country_of_origin'', country_of_origin)]))"
  unfolding ShipStationCustomsItem_init_def customs_self Let_def
  by (auto simp: require_attribute_def require_type_def slot_names_def
           split: sum.splits)

theorem customs_item_construction_witness:
  "ShipStationCustomsItem_init (VStr ''Widget'') (VInt 1) (VDecimal (Decimal False 1999 (- 2)))
     (VStr ''847130'') (VStr ''USA'') = Inl AttributeError
   \<and> ShipStationCustomsItem_init VNone (VInt 1) (VDecimal (Decimal False 1999 (- 2)))
     (VStr ''847130'') (VStr ''US'') = Inl AttributeError
   \<and> ShipStationCustomsItem_init (VStr ''Widget'') (VInt 1) (VInt 20)
     (VStr ''847130'') (VStr ''US'') = Inl AttributeError
   \<and> ShipStationCustomsItem_init (VStr ''Widget'') (VInt 1) (VDecimal (Decimal False 1999 (- 2)))
     (VStr ''847130'') (VStr ''US'') =
       Inr (VObj ShipStationCustomsItem []
              [(''description'', VStr ''Widget''), (''quantity'', VInt 1),
               (''value'', VDecimal (Decimal False 1999 (- 2))),
               (''harmonized_tariff_code'', VStr ''847130''),
               (''country_of_origin'', VStr ''US'')])"
  using
    customs_item_construction [where description = "VStr ''Widget''" and quantity = "VInt 1"
      and val = "VDecimal (Decimal False 1999 (- 2))"
      and harmonized_tariff_code = "VStr ''847130''" and country_of_origin = "VStr ''USA''"
      and s = "''USA''"]
    customs_item_construction [where description = VNone and quantity = "VInt 1"
      and val = "VDecimal (Decimal False 1999 (- 2))"
      and harmonized_tariff_code = "VStr ''847130''" and country_of_origin = "VStr ''US''"]
    customs_item_construction [where description = "VStr ''Widget''" and quantity = "VInt 1"
      and val = "VInt 20"
      and harmonized_tariff_code = "VStr ''847130''" and country_of_origin = "VStr ''US''"]
    customs_item_construction [where description = "VStr ''Widget''" and quantity = "VInt 1"
      and val = "VDecimal (Decimal False 1999 (- 2))"
      and harmonized_tariff_code = "VStr ''847130''" and country_of_origin = "VStr ''US''"
      and a = "CHR ''U''" and b = "CHR ''S''" and dec = "Decimal False 1999 (- 2)"]
  by simp

text \<open>
  C6 (as amended). For every order whose method \<^verbatim>\<open>set_status\<close> is not hidden by an
  attribute of that name of its own: a status that is true (in Python's sense: neither
  \<^verbatim>\<open>None\<close> nor empty nor zero) and not in the allowed order-status set makes
  \<^verbatim>\<open>set_status\<close> raise \<^verbatim>\<open>AttributeError\<close> and leave the order as it was; a true
  status in the set is stored; a false status (\<^verbatim>\<open>None\<close>, the empty string, zero,
  \<^verbatim>\<open>False\<close>) raises nothing and sets \<^verbatim>\<open>order_status\<close> to \<^verbatim>\<open>None\<close>. Storing changes
  \<^verbatim>\<open>order_status\<close> and no other attribute. On an order that has an attribute named
  \<^verbatim>\<open>set_status\<close> of its own, every call raises \<^verbatim>\<open>TypeError\<close> and leaves the order as
  it was.
\<close>

theorem set_status_rejects:
  "(truthy status \<and> \<not> py_in status (ORDER_STATUS_VALUES enums) \<longrightarrow>
      set_status enums self status =
        (Inl (if shadowed self ''set_status'' then TypeError else AttributeError), self))
   \<and> (truthy status \<and> py_in status (ORDER_STATUS_VALUES enums) \<longrightarrow>
      set_status enums self status =
        (if shadowed self ''set_status'' then (Inl TypeError, self)
         else (Inr (), assign self ''order_status'' status)))
   \<and> (\<not> truthy status \<longrightarrow>
      set_status enums self status =
        (if shadowed self ''set_status'' then (Inl TypeError, self)
         else (Inr (), assign self ''order_status'' VNone)))
   \<and> (isinstance self (TEntity ShipStationOrder) \<longrightarrow>
      getattr (assign self ''order_status'' v) ''order_status'' = Inr v
      \<and> (\<forall>n. n \<noteq> ''order_status'' \<longrightarrow>
            getattr (assign self ''order_status'' v) n = getattr self n))"
proof -
  have stored: "getattr (assign self ''order_status'' v) ''order_status'' = Inr v
      \<and> (\<forall>n. n \<noteq> ''order_status'' \<longrightarrow>
            getattr (assign self ''order_status'' v) n = getattr self n)"
    if "isinstance self (TEntity ShipStationOrder)"
  proof (cases self)
    case (VObj c sl di)
    then show ?thesis by (simp add: getattr_assign del: assign.simps getattr.simps)
  qed (use that in simp_all)
  show ?thesis
    using stored by (simp add: set_status_def invoke_m_def)
qed

theorem set_status_rejects_witness:
  "truthy (VStr ''lost'') \<and> \<not> py_in (VStr ''lost'') (ORDER_STATUS_VALUES sample_constants)
   \<and> set_status sample_constants (ShipStationOrder_init ''2020-01-01T00:00:00'' VNone (VStr ''1001''))
        (VStr ''lost'') =
      (Inl AttributeError, ShipStationOrder_init ''2020-01-01T00:00:00'' VNone (VStr ''1001''))
   \<and> \<not> truthy VNone
   \<and> isinstance shipped_order (TEntity ShipStationOrder)
   \<and> getattr shipped_order ''order_status'' = Inr (VStr ''shipped'')
   \<and> fst (set_status sample_constants shipped_order VNone) = Inr ()
   \<and> getattr (snd (set_status sample_constants shipped_order VNone)) ''order_status'' = Inr VNone
   \<and> getattr (snd (set_status sample_constants shipped_order VNone)) ''order_number'' =
       getattr shipped_order ''order_number''"
proof -
  let ?new = "ShipStationOrder_init ''2020-01-01T00:00:00'' VNone (VStr ''1001'')"
  have h1: "truthy (VStr ''lost'')" by simp
  have h2: "\<not> py_in (VStr ''lost'') (ORDER_STATUS_VALUES sample_constants)"
    by (simp add: sample_constants_def)
  have h3: "\<not> shadowed ?new ''set_status''" by code_simp
  have h4: "\<not> shadowed shipped_order ''set_status''" by code_simp
  have h5: "isinstance shipped_order (TEntity ShipStationOrder)" by code_simp
  have h6: "getattr shipped_order ''order_status'' = Inr (VStr ''shipped'')" by code_simp
  have h7: "''order_number'' \<noteq> ''order_status''" by simp
  show ?thesis
    using h1 h2 h3 h4 h5 h6 h7
      set_status_rejects [where enums = sample_constants and self = ?new
        and status = "VStr ''lost''"]
      set_status_rejects [where enums = sample_constants and self = shipped_order
        and status = VNone and v = VNone]
    by (simp del: assign.simps getattr.simps)
qed

text \<open>
  The claim as stated, for every status other than \<^verbatim>\<open>None\<close>, fails at the empty
  string: it is not an allowed status, yet nothing is raised and the status is reset.
\<close>

theorem set_status_counterexample:
  "VStr '''' \<noteq> VNone \<and> \<not> py_in (VStr '''') (ORDER_STATUS_VALUES sample_constants)
   \<and> getattr shipped_order ''order_status'' = Inr (VStr ''shipped'')
   \<and> fst (set_status sample_constants shipped_order (VStr '''')) = Inr ()
   \<and> getattr (snd (set_status sample_constants shipped_order (VStr ''''))) ''order_status'' =
       Inr VNone"
  by code_simp

subsection \<open>Order list parameters\<close>

lemma fetch_orders_parameters_dict:
  "fetch_orders_parameters consts (VDict d) =
     (if list_all (\<lambda>k. k \<in> set (ORDER_LIST_PARAMETERS consts)) (map fst d)
      then Inr (VDict (dict_comp to_camel_case d)) else Inl AttributeError)"
  by (auto simp: fetch_orders_parameters_def require_type_def Let_def
        filter_empty_conv list_all_iff)

lemma perform_sent:
  "sent (snd (perform net c req decode)) = sent c @ [req]"
  by (simp add: perform_def Let_def split: sum.splits)

text \<open>
  C7. For every mapping passed to \<^verbatim>\<open>fetch_orders\<close>: when it has a key outside
  \<^verbatim>\<open>ORDER_LIST_PARAMETERS\<close>, both variants raise \<^verbatim>\<open>AttributeError\<close> and the client
  is as before, no request made; when every key is recognised, the synchronous variant
  makes exactly one more request, a GET of \<^verbatim>\<open>/orders/list\<close> whose query parameters are
  the mapping with its keys in camelCase (its result is that of \<^verbatim>\<open>get\<close>), and the
  asynchronous variant returns the coroutine of that same request.
\<close>

theorem fetch_orders_validation:
  "(\<not> list_all (\<lambda>k. k \<in> set (ORDER_LIST_PARAMETERS consts)) (map fst d) \<longrightarrow>
      api_fetch_orders net consts c (VDict d) = (Inl AttributeError, c)
      \<and> aio_fetch_orders consts c (VDict d) = (Inl AttributeError, c))
   \<and> (list_all (\<lambda>k. k \<in> set (ORDER_LIST_PARAMETERS consts)) (map fst d) \<longrightarrow>
      api_fetch_orders net consts c (VDict d) =
        api_get net c ''/orders/list'' (VDict (dict_comp to_camel_case d))
      \<and> sent (snd (api_fetch_orders net consts c (VDict d))) =
          sent c @ [\<lparr>rq_method = ''GET'', rq_url = self_url c @ ''/orders/list'',
                     rq_auth = (self_key c, self_secret c),
                     rq_params = VDict (dict_comp to_camel_case d), rq_data = VNone,
                     rq_headers = [], rq_timeout = self_timeout c\<rparr>]
      \<and> aio_fetch_orders consts c (VDict d) =
          (Inr (VCoroutine ''GET'' ''/orders/list'' (VDict (dict_comp to_camel_case d))), c))"
  by (simp add: api_fetch_orders_def aio_fetch_orders_def fetch_orders_parameters_dict
        api_get_def perform_sent aio_get_def)

lemma sample_camel:
  "dict_comp to_camel_case [(''order_status'', VStr ''shipped''), (''page'', VStr ''2'')] =
     [(''orderStatus'', VStr ''shipped''), (''page'', VStr ''2'')]"
  by code_simp

theorem fetch_orders_validation_witness:
  "api_fetch_orders sample_net sample_constants sample_client (VDict [(''bogus'', VInt 1)]) =
     (Inl AttributeError, sample_client)
   \<and> api_fetch_orders sample_net sample_constants sample_client
       (VDict [(''order_status'', VStr ''shipped''), (''page'', VStr ''2'')]) =
     (Inr (VResponse 200 (Some (VDict []))),
      sample_client\<lparr>sent :=
        [\<lparr>rq_method = ''GET'', rq_url = ''https://ssapi.shipstation.com/orders/list'',
          rq_auth = (VStr ''key'', VStr ''secret''),
          rq_params = VDict [(''orderStatus'', VStr ''shipped''), (''page'', VStr ''2'')],
          rq_data = VNone, rq_headers = [], rq_timeout = VFloat 0x3FF0000000000000\<rparr>]\<rparr>)
   \<and> aio_fetch_orders sample_constants sample_client
       (VDict [(''order_status'', VStr ''shipped''), (''page'', VStr ''2'')]) =
     (Inr (VCoroutine ''GET'' ''/orders/list''
            (VDict [(''orderStatus'', VStr ''shipped''), (''page'', VStr ''2'')])),
      sample_client)"
proof -
  have bad: "\<not> list_all (\<lambda>k. k \<in> set (ORDER_LIST_PARAMETERS sample_constants))
               (map fst [(''bogus'', VInt 1)])"
    by (simp add: sample_constants_def)
  have good: "list_all (\<lambda>k. k \<in> set (ORDER_LIST_PARAMETERS sample_constants))
               (map fst [(''order_status'', VStr ''shipped''), (''page'', VStr ''2'')])"
    by (simp add: sample_constants_def)
  show ?thesis
    using bad good
      fetch_orders_validation [of sample_constants "[(''bogus'', VInt 1)]" sample_net sample_client]
      fetch_orders_validation [of sample_constants
        "[(''order_status'', VStr ''shipped''), (''page'', VStr ''2'')]" sample_net sample_client]
    by (simp add: sample_camel api_get_def perform_def sample_net_def sample_client_def)
qed

subsection \<open>The two variants\<close>

lemma fetch_orders_variants_agree:
  "(fst (api_fetch_orders net consts c parameters) = Inl AttributeError
      \<and> snd (api_fetch_orders net consts c parameters) = c
      \<and> aio_fetch_orders consts c parameters = (Inl AttributeError, c))
   \<or> (\<exists>valid_parameters.
        api_fetch_orders net consts c parameters = api_get net c ''/orders/list'' valid_parameters
        \<and> aio_fetch_orders consts c parameters =
            (Inr (VCoroutine ''GET'' ''/orders/list'' valid_parameters), c))"
proof (cases "fetch_orders_parameters consts parameters")
  case (Inl e)
  then have "e = AttributeError"
    by (auto simp: fetch_orders_parameters_def require_type_def Let_def
          split: if_splits pyval.splits)
  with Inl show ?thesis by (simp add: api_fetch_orders_def aio_fetch_orders_def)
next
  case (Inr v)
  then show ?thesis by (simp add: api_fetch_orders_def aio_fetch_orders_def aio_get_def)
qed

lemma dict_set_keys: "fst ` set (dict_set d n v) = insert n (fst ` set d)"
  by (induction d n v rule: dict_set.induct) auto

lemma shadowed_assign:
  assumes "shadowed (assign self n v) m"
  shows "shadowed self m \<or> m = n"
proof (cases self)
  case (VObj c sl di)
  with assms show ?thesis
    using dict_set_keys [of di n v] by (auto simp: shadowed_def split: if_splits)
qed (use assms in \<open>simp_all add: shadowed_def\<close>)

lemma shadowed_assigns:
  "shadowed (assigns self kvs) m \<Longrightarrow> shadowed self m \<or> m \<in> set (map fst kvs)"
proof (induction kvs arbitrary: self)
  case Nil
  then show ?case by simp
next
  case (Cons kv kvs)
  obtain n v where kv: "kv = (n, v)" by (cases kv)
  with Cons.prems have "shadowed (assigns (assign self n v) kvs) m" by simp
  from Cons.IH [OF this] shadowed_assign [of self n v m] kv show ?case by auto
qed

lemma init_names_methods:
  "''from_json'' \<notin> set (init_names c) \<and> ''to_snake_case'' \<notin> set (init_names c)"
  by (cases c) (simp_all add: slot_names_def)

lemma assigns_fields:
  "m \<notin> set (map fst kvs) \<Longrightarrow> \<not> shadowed (assigns (VObj c [] []) kvs) m"
  using shadowed_assigns [of "VObj c [] []" kvs m] by (auto simp: shadowed_def)

lemma init_fields_methods:
  "\<not> shadowed (init_fields c []) ''from_json'' \<and> \<not> shadowed (init_fields c []) ''to_snake_case''"
  unfolding init_fields_def using init_names_methods [of c]
  by (auto intro!: assigns_fields simp: comp_def)

lemma international_options_methods:
  assumes "ShipStationInternationalOptions_init enums contents non_delivery = Inr self"
    and "m \<notin> set [''customs_items'', ''contents'', ''non_delivery'',
                   ''set_contents'', ''set_non_delivery'']"
  shows "\<not> shadowed self m"
  using assms
  by (auto simp: ShipStationInternationalOptions_init_def Let_def slot_names_def
      ShipStationInternationalOptions_set_contents_def
      ShipStationInternationalOptions_set_non_delivery_def invoke_m_def shadowed_def
      split: if_splits)

lemma construct_methods:
  assumes "construct enums now X = Inr self"
  shows "\<not> shadowed self ''from_json'' \<and> \<not> shadowed self ''to_snake_case''"
proof -
  consider "X = ShipStationCustomsItem" | "X = ShipStationInternationalOptions"
    | "X = ShipStationWeight" | "X = ShipStationContainer" | "X = ShipStationItem"
    | "X = ShipStationOrder"
    | "X \<notin> {ShipStationCustomsItem, ShipStationInternationalOptions, ShipStationWeight,
         ShipStationContainer, ShipStationItem, ShipStationOrder}"
    by blast
  then show ?thesis
  proof cases
    case 1
    with assms show ?thesis
      by (simp add: construct_def ShipStationCustomsItem_init_def require_attribute_def
          slot_names_def)
  next
    case 2
    with assms international_options_methods [of enums VNone "VStr ''return_to_sender''" self]
    show ?thesis by (simp add: construct_def)
  next
    case 3
    with assms have "self = ShipStationWeight_init VNone VNone" by (simp add: construct_def)
    then show ?thesis
      unfolding ShipStationWeight_init_def by (simp add: assigns_fields del: assigns.simps)
  next
    case 4
    with assms have "self = ShipStationContainer_init VNone VNone VNone VNone" by (simp add: construct_def)
    then show ?thesis
      unfolding ShipStationContainer_init_def by (simp add: assigns_fields del: assigns.simps)
  next
    case 5
    with assms have "self = ShipStationItem_init VNone VNone VNone VNone VNone VNone VNone VNone" by (simp add: construct_def)
    then show ?thesis
      unfolding ShipStationItem_init_def by (simp add: assigns_fields del: assigns.simps)
  next
    case 6
    with assms have "self = ShipStationOrder_init now VNone VNone" by (simp add: construct_def)
    then show ?thesis
      unfolding ShipStationOrder_init_def by (simp add: assigns_fields del: assigns.simps)
  next
    case 7
    with assms init_fields_methods [of X] show ?thesis
      by (auto simp: construct_def)
  qed
qed

lemma assigns_obj: "\<exists>sl' di'. assigns (VObj c sl di) kvs = VObj c sl' di'"
  by (induction kvs arbitrary: sl di) auto

text \<open>
  C9. The two variants do not make the same request for the same call:
  \<^verbatim>\<open>get_customer(42)\<close> of \<^verbatim>\<open>api.py\<close> sends a GET of \<^verbatim>\<open>/customers/customerId\<close>
  with the query parameter \<^verbatim>\<open>carrierCode=42\<close>, the one of \<^verbatim>\<open>aio.py\<close> builds a GET of
  \<^verbatim>\<open>/customers/42\<close> without parameters, and then raises, handing the coroutine
  to \<^verbatim>\<open>from_json\<close> without awaiting it.
\<close>

theorem get_customer_variants_differ:
  "sent (snd (api_get_customer net c (VInt 42))) =
     sent c @ [\<lparr>rq_method = ''GET'', rq_url = self_url c @ ''/customers/customerId'',
                rq_auth = (self_key c, self_secret c),
                rq_params = VDict [(''carrierCode'', VInt 42)], rq_data = VNone,
                rq_headers = [], rq_timeout = self_timeout c\<rparr>]
   \<and> aio_get c (''/customers/'' @ py_str lib (VInt 42)) VNone =
       VCoroutine ''GET'' ''/customers/42'' VNone
   \<and> aio_get_customer consts now lib c (VInt 42) = (Inl AttributeError, c)"
proof -
  have s: "str_int 42 = ''42''" by code_simp
  obtain sl di where "init_fields ShipStationCustomer [] = VObj ShipStationCustomer sl di"
    unfolding init_fields_def using assigns_obj by blast
  moreover have made: "construct consts now ShipStationCustomer =
      Inr (init_fields ShipStationCustomer [])"
    by (simp add: construct_def)
  ultimately have f: "from_wire consts now lib ShipStationCustomer
                  (VCoroutine ''GET'' e VNone) = Inl AttributeError" for e
    using construct_methods [OF made]
    by (simp add: from_wire_def ShipStationCustomer_from_json_def
        ShipStationBase_from_json_def decode_source_def items_of_def)
  show ?thesis
    by (simp add: api_get_customer_def api_get_def perform_sent aio_get_def aio_get_customer_def s f)
qed

subsection \<open>The order accumulator\<close>
















subsection \<open>Object lists\<close>

lemma emap_list_all2:
  "emap f xs = Inr ys \<longleftrightarrow> list_all2 (\<lambda>x y. f x = Inr y) xs ys"
proof (induction xs arbitrary: ys)
  case Nil
  then show ?case by auto
next
  case (Cons x xs)
  show ?case
  proof (cases ys)
    case Nil
    then show ?thesis by (simp split: sum.splits)
  next
    case (Cons y ys')
    with Cons.IH [of ys'] show ?thesis by (auto split: sum.splits)
  qed
qed

lemma setattr_items_plain:
  "list_all (\<lambda>k. to_snake_case k \<notin> set (''to_snake_case'' # special_names)) (map fst kvs) \<Longrightarrow>
   \<not> shadowed (VObj c sl di) ''to_snake_case'' \<Longrightarrow>
   \<exists>sl' di'. setattr_items (VObj c sl di) kvs = Inr (VObj c sl' di')"
proof (induction kvs arbitrary: sl di)
  case Nil
  then show ?case by simp
next
  case (Cons kv kvs)
  obtain k v where kv: "kv = (k, v)" by (cases kv)
  from Cons.prems kv have plain: "to_snake_case k \<notin> set special_names"
    and other: "to_snake_case k \<noteq> ''to_snake_case''"
    and rest: "list_all (\<lambda>k. to_snake_case k \<notin> set (''to_snake_case'' # special_names))
                 (map fst kvs)"
    by simp_all
  from plain have step: "setattr (VObj c sl di) (to_snake_case k) v =
      Inr (assign (VObj c sl di) (to_snake_case k) v)"
    by (simp add: special_names_def)
  obtain sl1 di1 where obj: "assign (VObj c sl di) (to_snake_case k) v = VObj c sl1 di1"
    by (cases "to_snake_case k \<in> set (slot_names c)") simp_all
  from shadowed_assign [of "VObj c sl di" "to_snake_case k" v "''to_snake_case''"]
    Cons.prems(2) other obj
  have free: "\<not> shadowed (VObj c sl1 di1) ''to_snake_case''" by auto
  from Cons.IH [OF rest free] kv step obj Cons.prems(2) show ?case
    by (simp add: invoke_def del: setattr.simps assign.simps)
qed

text \<open>
  C3 (as amended). For every entity type \<open>X\<close>: \<^verbatim>\<open>object_list\<close> applied to a response
  whose decoded body is a single wire object returns the one-element list of
  \<^verbatim>\<open>X().from_json\<close> of that object; applied to a response whose body is a list it does
  what it does for the list; applied to an already decoded list it returns \<open>ys\<close> exactly
  when \<open>ys\<close> has the length of the input and holds, in input order,
  \<^verbatim>\<open>X().from_json\<close> of each element. \<^verbatim>\<open>X().from_json\<close> of a wire object succeeds
  whenever \<^verbatim>\<open>X()\<close> does, \<open>X\<close> does not override \<^verbatim>\<open>from_json\<close>, and no key names a
  special attribute or the method \<^verbatim>\<open>to_snake_case\<close>, which the loop still has to call.
\<close>

theorem object_list_contract:
  "(from_wire enums now lib X (VDict d) = Inr obj \<longrightarrow>
      object_list enums now lib (VResponse st (Some (VDict d))) X = Inr [obj])
   \<and> object_list enums now lib (VResponse st (Some (VList xs))) X =
       object_list enums now lib (VList xs) X
   \<and> (object_list enums now lib (VList xs) X = Inr ys \<longleftrightarrow>
        list_all2 (\<lambda>x y. from_wire enums now lib X x = Inr y) xs ys)
   \<and> (construct enums now X = Inr (VObj X sl di)
        \<and> X \<noteq> ShipStationWarehouse \<and> X \<noteq> ShipStationCustomer
        \<and> list_all (\<lambda>k. to_snake_case k \<notin> set (''to_snake_case'' # special_names))
              (map fst d) \<longrightarrow>
        (\<exists>sl' di'. from_wire enums now lib X (VDict d) = Inr (VObj X sl' di')))"
proof -
  have total: "\<exists>sl' di'. from_wire enums now lib X (VDict d) = Inr (VObj X sl' di')"
    if made: "construct enums now X = Inr (VObj X sl di)"
      and "X \<noteq> ShipStationWarehouse" and "X \<noteq> ShipStationCustomer"
      and keys: "list_all (\<lambda>k. to_snake_case k \<notin> set (''to_snake_case'' # special_names))
                   (map fst d)"
  proof -
    from construct_methods [OF made]
    have free: "\<not> shadowed (VObj X sl di) ''from_json''"
      "\<not> shadowed (VObj X sl di) ''to_snake_case''"
      by simp_all
    from setattr_items_plain [OF keys free(2)] that(2,3) made free(1) show ?thesis
      by (simp add: from_wire_def ShipStationBase_from_json_def decode_source_def items_of_def)
  qed
  have single: "object_list enums now lib (VResponse st (Some (VDict d))) X = Inr [obj]"
    if "from_wire enums now lib X (VDict d) = Inr obj"
    using that by (simp add: object_list_def)
  have same: "object_list enums now lib (VResponse st (Some (VList xs))) X =
       object_list enums now lib (VList xs) X"
    by (simp add: object_list_def)
  have each: "object_list enums now lib (VList xs) X = Inr ys \<longleftrightarrow>
        list_all2 (\<lambda>x y. from_wire enums now lib X x = Inr y) xs ys"
    by (simp add: object_list_def emap_list_all2)
  show ?thesis
    using total single same each by blast
qed

theorem object_list_contract_witness:
  "\<forall>lib.
     from_wire sample_constants ''2020-01-01T00:00:00'' lib ShipStationUser (VDict [(''a'', VInt 1)]) =
       Inr (VObj ShipStationUser
              [(''name'', VNone), (''user_id'', VNone), (''user_name'', VNone)] [(''a'', VInt 1)])
     \<and> object_list sample_constants ''2020-01-01T00:00:00'' lib
          (VResponse 200 (Some (VDict [(''a'', VInt 1)]))) ShipStationUser =
       Inr [VObj ShipStationUser
              [(''name'', VNone), (''user_id'', VNone), (''user_name'', VNone)] [(''a'', VInt 1)]]
     \<and> object_list sample_constants ''2020-01-01T00:00:00'' lib
          (VList [VDict [(''a'', VInt 1)], VDict [(''a'', VInt 2)]]) ShipStationUser =
       Inr [VObj ShipStationUser
              [(''name'', VNone), (''user_id'', VNone), (''user_name'', VNone)] [(''a'', VInt 1)],
            VObj ShipStationUser
              [(''name'', VNone), (''user_id'', VNone), (''user_name'', VNone)] [(''a'', VInt 2)]]"
proof
  fix lib
  let ?u = "\<lambda>i. VObj ShipStationUser
              [(''name'', VNone), (''user_id'', VNone), (''user_name'', VNone)] [(''a'', VInt i)]"
  have fw: "from_wire sample_constants ''2020-01-01T00:00:00'' lib ShipStationUser
              (VDict [(''a'', VInt i)]) = Inr (?u i)" for i
    by code_simp
  have l2: "list_all2 (\<lambda>x y. from_wire sample_constants ''2020-01-01T00:00:00'' lib
              ShipStationUser x = Inr y)
              [VDict [(''a'', VInt 1)], VDict [(''a'', VInt 2)]] [?u 1, ?u 2]"
    using fw by simp
  show "from_wire sample_constants ''2020-01-01T00:00:00'' lib ShipStationUser
          (VDict [(''a'', VInt 1)]) = Inr (?u 1)
     \<and> object_list sample_constants ''2020-01-01T00:00:00'' lib
          (VResponse 200 (Some (VDict [(''a'', VInt 1)]))) ShipStationUser = Inr [?u 1]
     \<and> object_list sample_constants ''2020-01-01T00:00:00'' lib
          (VList [VDict [(''a'', VInt 1)], VDict [(''a'', VInt 2)]]) ShipStationUser =
       Inr [?u 1, ?u 2]"
    using fw [of 1] l2
      object_list_contract [where enums = sample_constants and now = "''2020-01-01T00:00:00''"
        and lib = lib and X = ShipStationUser and d = "[(''a'', VInt 1)]" and obj = "?u 1"
        and st = 200]
      object_list_contract [where enums = sample_constants and now = "''2020-01-01T00:00:00''"
        and lib = lib and X = ShipStationUser
        and xs = "[VDict [(''a'', VInt 1)], VDict [(''a'', VInt 2)]]" and ys = "[?u 1, ?u 2]"]
    by simp
qed

text \<open>
  The claim as stated fails for a bare decoded object: a dictionary is not a list and
  has no \<^verbatim>\<open>json\<close> method, so \<^verbatim>\<open>object_list({"a": 1}, X)\<close> raises.
\<close>

theorem object_list_counterexample:
  "\<forall>consts now lib.
     object_list consts now lib (VDict [(''a'', VInt 1)]) ShipStationUser = Inl AttributeError"
  by (simp add: object_list_def )

subsection \<open>Order weight\<close>





subsection \<open>Serialisation\<close>

text \<open>
  C1. Serialisation does not coerce and recurse for every entity.
  \<^verbatim>\<open>ShipStationOrder.json\<close> overrides the coercing \<^verbatim>\<open>json\<close> of the base class by a
  plain \<^verbatim>\<open>json.dumps(self.as_dict())\<close>, so a newly constructed order, whose amounts
  are \<^verbatim>\<open>Decimal("0")\<close>, cannot be serialised at all; and an item that owns a weight
  raises \<^verbatim>\<open>NameError\<close> in its \<^verbatim>\<open>as_dict\<close> before any nested value is serialised.
\<close>

theorem json_without_coercion:
  "ShipStationOrder_json lib (ShipStationOrder_init now VNone (VStr ''1001'')) = Inl TypeError
   \<and> json lib scenario_item = Inl NameError"
  by code_simp

end
